theory Spec2Isabelle
  imports Main "HOL-Library.Word"
begin

section \<open>The xlink channel multiplexer\<close>

text \<open>
  A shallow embedding of \<^verbatim>\<open>drivers/misc/xlink-core/xlink-multiplexer.c\<close> and of the write
  entry points of \<^verbatim>\<open>drivers/misc/xlink-core/xlink-core.c\<close>.

  Conventions.
  \<^item> \<^verbatim>\<open>uint32_t\<close> and \<^verbatim>\<open>int32_t\<close> are both \<open>32 word\<close>: the bit pattern is what C stores.
    An \<^verbatim>\<open>int32_t\<close> is read with \<open>sint\<close>, a \<^verbatim>\<open>uint32_t\<close> with \<open>unat\<close>. Where C adds an
    \<^verbatim>\<open>int32_t\<close> and a \<^verbatim>\<open>uint32_t\<close> the sum is computed in \<^verbatim>\<open>uint32_t\<close>, which is \<open>+\<close> on
    \<open>32 word\<close>; comparisons of two unsigned values are \<open><\<close> on words.
  \<^item> Pointers and bus addresses are natural numbers, \<open>NULL\<close> is 0.
  \<^item> Fields keep their names; where a name is taken in HOL or by another record it gets a
    prefix (\<open>chan_size\<close> for \<^verbatim>\<open>size\<close>, \<open>pkt_length\<close> for \<^verbatim>\<open>length\<close>, \<open>header_type\<close> for
    \<^verbatim>\<open>header.type\<close>). The cases of the two big switches are functions named after their
    labels (\<open>tx_write_req\<close>, \<open>rx_release_req\<close>).
  \<^item> A kernel list (\<^verbatim>\<open>struct list_head\<close>) is a HOL list, oldest entry first.
  \<^item> Calls to collaborators that live outside the two files (platform allocator and
    transport, dispatcher, completions, signals) are recorded in a trace of \<open>effect\<close>s,
    oldest first; whatever they return is an input of the model.
  \<^item> Constants of headers that are not part of the sources at hand are fields of the
    record \<open>xlink_defs\<close>.
  \<^item> The model follows one calling thread. The channel mutex is not modelled; where the
    caller sleeps on a completion, what other threads did to the runtime state in the
    meantime is an input (\<open>during\<close>).
\<close>

subsection \<open>Data\<close>

type_synonym u32 = "32 word"
type_synonym s32 = "32 word"
type_synonym u16 = "16 word"
type_synonym ptr = nat
type_synonym dma_addr = nat

definition NULL :: ptr where
  "NULL = 0"

text \<open>The result codes the two files use. The code relies on \<^verbatim>\<open>X_LINK_SUCCESS\<close> being 0.\<close>

datatype xlink_error =
    X_LINK_SUCCESS
  | X_LINK_ALREADY_OPEN
  | X_LINK_COMMUNICATION_FAIL
  | X_LINK_TIMEOUT
  | X_LINK_ERROR
  | X_LINK_CHAN_FULL
  | NEG_ERESTARTSYS
  \<comment> \<open>not an enumerator: the negative value of an interrupted untimed wait, which the
     read requests hand back unmapped\<close>

datatype xlink_opmode = RXB_TXB | RXN_TXN | RXB_TXN | RXN_TXB

datatype xlink_channel_status = CHAN_CLOSED | CHAN_OPEN | CHAN_OPEN_PEER

datatype xlink_interface =
    NULL_INTERFACE | PCIE_INTERFACE | USB_CDC_INTERFACE | ETH_INTERFACE | IPC_INTERFACE

datatype xlink_dev_type = HOST_DEVICE | VPUIP_DEVICE

datatype xlink_event_type =
    XLINK_WRITE_REQ
  | XLINK_WRITE_VOLATILE_REQ
  | XLINK_WRITE_CONTROL_REQ
  | XLINK_READ_REQ
  | XLINK_READ_TO_BUFFER_REQ
  | XLINK_RELEASE_REQ
  | XLINK_OPEN_CHANNEL_REQ
  | XLINK_CLOSE_CHANNEL_REQ
  | XLINK_PING_REQ
  | XLINK_DATA_READY_CALLBACK_REQ
  | XLINK_DATA_CONSUMED_CALLBACK_REQ
  | XLINK_PASSTHRU_WRITE_REQ
  | XLINK_PASSTHRU_VOLATILE_WRITE_REQ
  | XLINK_PASSTHRU_READ_REQ
  | XLINK_PASSTHRU_READ_TO_BUFFER_REQ
  | XLINK_WRITE_RESP
  | XLINK_WRITE_VOLATILE_RESP
  | XLINK_WRITE_CONTROL_RESP
  | XLINK_READ_RESP
  | XLINK_READ_TO_BUFFER_RESP
  | XLINK_RELEASE_RESP
  | XLINK_OPEN_CHANNEL_RESP
  | XLINK_CLOSE_CHANNEL_RESP
  | XLINK_PING_RESP

text \<open>\<^verbatim>\<open>struct packet\<close>.\<close>

record packet =
  pkt_data :: ptr
  pkt_length :: u32
  pkt_paddr :: dma_addr

text \<open>\<^verbatim>\<open>struct packet_queue\<close>; \<open>head\<close> is the list hanging off \<^verbatim>\<open>queue->head\<close>.\<close>

record packet_queue =
  count :: u32
  capacity :: u32
  head :: "packet list"

text \<open>
  \<^verbatim>\<open>struct open_channel\<close>. The back pointer \<^verbatim>\<open>chan\<close> always points at the slot that owns the
  runtime state, so functions that follow it take the slot as an argument. The four
  completions and the mutex are kernel objects and appear in the trace only.
\<close>

record open_channel =
  chan_id :: u16
  rx_queue :: packet_queue
  tx_queue :: packet_queue
  rx_fill_level :: s32
  tx_fill_level :: s32
  tx_packet_level :: s32
  tx_up_limit :: s32
  ready_calling_pid :: ptr
  ready_callback :: ptr
  consumed_calling_pid :: ptr
  consumed_callback :: ptr
  callback_origin :: char

text \<open>\<^verbatim>\<open>struct channel\<close>, one slot of \<^verbatim>\<open>xmux->channels[link_id][chan]\<close>.\<close>

record channel =
  opchan :: "open_channel option"
  mode :: xlink_opmode
  status :: xlink_channel_status
  ipc_status :: xlink_channel_status
  chan_size :: u32
  timeout :: u32

text \<open>Constants and helpers of headers and files outside the sources at hand.\<close>

record xlink_defs =
  XLINK_PACKET_QUEUE_CAPACITY :: nat
  NMB_CHANNELS :: nat
  XLINK_IPC_MAX_CHANNELS :: nat
  IP_CONTROL_CHANNEL :: nat
  VPU_CONTROL_CHANNEL :: nat
  XLINK_MAX_DATA_SIZE :: nat
  XLINK_MAX_CONTROL_DATA_SIZE :: nat
  XLINK_MAX_BUF_SIZE :: nat
  get_interface_from_sw_device_id :: "u32 \<Rightarrow> xlink_interface"

definition THR_UPR :: nat where
  "THR_UPR = 85"

definition THR_LWR :: nat where
  "THR_LWR = 80"

definition OPEN_CHANNEL_TIMEOUT_MSEC :: nat where
  "OPEN_CHANNEL_TIMEOUT_MSEC = 5000"

subsection \<open>Collaborators\<close>

datatype completion = OPENED | PKT_AVAILABLE | PKT_CONSUMED | PKT_RELEASED

datatype event_dir = EVENT_TX | EVENT_RX

datatype mem_region = XLINK_NORMAL_MEMORY | XLINK_CMA_MEMORY

text \<open>
  One entry per call that leaves the two files. \<open>Wait c None\<close> is
  \<^verbatim>\<open>wait_for_completion_interruptible\<close>, \<open>Wait c (Some ms)\<close> is
  \<^verbatim>\<open>wait_for_completion_interruptible_timeout\<close> with \<^verbatim>\<open>msecs_to_jiffies(ms)\<close>.
\<close>

datatype effect =
    Platform_allocate u32 mem_region
  | Platform_deallocate ptr dma_addr u32 mem_region
  | Platform_read xlink_interface u32 ptr u32
  | Kfree_packet
  | Kfree_opchan
  | Dispatcher_event_add event_dir xlink_event_type
  | Create_event xlink_event_type u16 u32 u32
  | Destroy_event
  | Passthrough xlink_event_type
  | Complete completion
  | Wait completion "nat option"
  | Send_sig_info ptr u16 ptr
  | Call_callback ptr u16

text \<open>
  What a sleep on a completion returned (positive, zero, negative), and what the
  threads that ran meanwhile did to the runtime state of the channel.
\<close>

datatype wait_result = Completed | Timed_out | Interrupted

record wake =
  result :: wait_result
  during :: "open_channel \<Rightarrow> open_channel"

text \<open>
  A call either returns, or is still asleep when the recorded wake-ups are used up
  (also: an untimed wait that is never completed), or dereferences \<open>NULL\<close>.
\<close>

datatype 'a run = Returns 'a | Blocked | Null_deref

subsection \<open>Packet queues\<close>

datatype queue_sel = RX_QUEUE | TX_QUEUE

fun get_queue :: "queue_sel \<Rightarrow> open_channel \<Rightarrow> packet_queue" where
  "get_queue RX_QUEUE oc = rx_queue oc"
| "get_queue TX_QUEUE oc = tx_queue oc"

fun set_queue :: "queue_sel \<Rightarrow> packet_queue \<Rightarrow> open_channel \<Rightarrow> open_channel" where
  "set_queue RX_QUEUE q oc = oc\<lparr>rx_queue := q\<rparr>"
| "set_queue TX_QUEUE q oc = oc\<lparr>tx_queue := q\<rparr>"

text \<open>
  \<^verbatim>\<open>add_packet_to_channel\<close>. \<open>kzalloc_ok\<close> says whether the allocation of the
  \<^verbatim>\<open>struct packet\<close> succeeds. Whatever queue is passed, the bytes are added to
  \<^verbatim>\<open>rx_fill_level\<close>.
\<close>

definition add_packet_to_channel ::
  "bool \<Rightarrow> open_channel \<Rightarrow> queue_sel \<Rightarrow> ptr \<Rightarrow> u32 \<Rightarrow> dma_addr \<Rightarrow> xlink_error \<times> open_channel" where
  "add_packet_to_channel kzalloc_ok oc qs buffer sz pa =
     (let queue = get_queue qs oc in
      if count queue < capacity queue then
        if \<not> kzalloc_ok then (X_LINK_ERROR, oc)
        else
          let pkt = \<lparr>pkt_data = buffer, pkt_length = sz, pkt_paddr = pa\<rparr>;
              queue' = queue\<lparr>head := head queue @ [pkt], count := count queue + 1\<rparr>;
              oc' = set_queue qs queue' oc
          in (X_LINK_SUCCESS, oc'\<lparr>rx_fill_level := rx_fill_level oc' + pkt_length pkt\<rparr>)
      else (X_LINK_SUCCESS, oc))"

text \<open>\<^verbatim>\<open>get_packet_from_channel\<close>: the first packet, or \<open>NULL\<close>.\<close>

definition get_packet_from_channel :: "packet_queue \<Rightarrow> packet option" where
  "get_packet_from_channel queue = (case head queue of [] \<Rightarrow> None | pkt # _ \<Rightarrow> Some pkt)"

text \<open>
  The search of \<^verbatim>\<open>release_packet_from_channel\<close>: with a \<open>NULL\<close> address the first
  packet, otherwise the first packet whose buffer is \<open>addr\<close>.
\<close>

definition find_packet :: "ptr \<Rightarrow> packet_queue \<Rightarrow> packet option" where
  "find_packet addr queue =
     (if addr = NULL then get_packet_from_channel queue
      else find (\<lambda>pkt. pkt_data pkt = addr) (head queue))"

text \<open>
  \<^verbatim>\<open>release_packet_from_channel\<close>. Returns the result code, the runtime state, the value
  written through \<^verbatim>\<open>size\<close> (if any) and the calls made. Whatever queue is passed, the
  bytes are taken off \<^verbatim>\<open>rx_fill_level\<close>.
\<close>

definition release_packet_from_channel ::
  "open_channel \<Rightarrow> queue_sel \<Rightarrow> ptr \<Rightarrow> xlink_error \<times> open_channel \<times> u32 option \<times> effect list" where
  "release_packet_from_channel oc qs addr =
     (let queue = get_queue qs oc in
      case find_packet addr queue of
        None \<Rightarrow> (X_LINK_ERROR, oc, None, [])
      | Some pkt \<Rightarrow>
          let queue' = queue\<lparr>head := remove1 pkt (head queue), count := count queue - 1\<rparr>;
              oc' = set_queue qs queue' oc
          in (X_LINK_SUCCESS,
              oc'\<lparr>rx_fill_level := rx_fill_level oc' - pkt_length pkt\<rparr>,
              Some (pkt_length pkt),
              [Platform_deallocate (pkt_data pkt) (pkt_paddr pkt) (pkt_length pkt)
                 XLINK_NORMAL_MEMORY,
               Kfree_packet]))"

subsection \<open>Admission control\<close>

text \<open>
  \<^verbatim>\<open>is_enough_space_in_channel\<close>. The packet cap compares two \<^verbatim>\<open>int\<close>s; the byte
  thresholds are computed and compared in \<^verbatim>\<open>uint32_t\<close>.
\<close>

definition upper_threshold :: "channel \<Rightarrow> u32" where
  "upper_threshold c = (chan_size c div 100) * of_nat THR_UPR"

definition lower_threshold :: "channel \<Rightarrow> u32" where
  "lower_threshold c = (chan_size c div 100) * of_nat THR_LWR"

definition packet_limit :: "xlink_defs \<Rightarrow> int" where
  "packet_limit d = int ((XLINK_PACKET_QUEUE_CAPACITY d div 100) * THR_UPR)"

definition is_enough_space_in_channel ::
  "xlink_defs \<Rightarrow> channel \<Rightarrow> open_channel \<Rightarrow> u32 \<Rightarrow> bool \<times> open_channel" where
  "is_enough_space_in_channel d c oc sz =
     (if packet_limit d \<le> sint (tx_packet_level oc) then (False, oc)
      else if tx_up_limit oc = 0 \<and> upper_threshold c < tx_fill_level oc + sz
        then (False, oc\<lparr>tx_up_limit := 1\<rparr>)
      else if tx_up_limit oc = 1 then
        (if tx_fill_level oc + sz < lower_threshold c
         then (True, oc\<lparr>tx_up_limit := 0\<rparr>)
         else (False, oc))
      else (True, oc))"

subsection \<open>Channel table\<close>

record xlink_channel_type =
  remote_to_local :: xlink_interface
  local_to_ip :: xlink_interface

record xlink_channel_table_entry =
  start_range :: nat
  stop_range :: nat
  entry_type :: xlink_channel_type

definition default_channel_table :: "xlink_defs \<Rightarrow> xlink_channel_table_entry list" where
  "default_channel_table d =
     [\<lparr>start_range = 0x0, stop_range = 0x1,
        entry_type = \<lparr>remote_to_local = PCIE_INTERFACE, local_to_ip = IPC_INTERFACE\<rparr>\<rparr>,
      \<lparr>start_range = 0x2, stop_range = 0x9,
        entry_type = \<lparr>remote_to_local = USB_CDC_INTERFACE, local_to_ip = IPC_INTERFACE\<rparr>\<rparr>,
      \<lparr>start_range = 0xA, stop_range = 0x3FD,
        entry_type = \<lparr>remote_to_local = PCIE_INTERFACE, local_to_ip = IPC_INTERFACE\<rparr>\<rparr>,
      \<lparr>start_range = 0x3FE, stop_range = 0x3FF,
        entry_type = \<lparr>remote_to_local = ETH_INTERFACE, local_to_ip = IPC_INTERFACE\<rparr>\<rparr>,
      \<lparr>start_range = 0x400, stop_range = 0xFFE,
        entry_type = \<lparr>remote_to_local = PCIE_INTERFACE, local_to_ip = NULL_INTERFACE\<rparr>\<rparr>,
      \<lparr>start_range = 0xFFF, stop_range = 0xFFF,
        entry_type = \<lparr>remote_to_local = ETH_INTERFACE, local_to_ip = NULL_INTERFACE\<rparr>\<rparr>,
      \<lparr>start_range = NMB_CHANNELS d mod 65536, stop_range = NMB_CHANNELS d mod 65536,
        entry_type = \<lparr>remote_to_local = NULL_INTERFACE, local_to_ip = NULL_INTERFACE\<rparr>\<rparr>]"

text \<open>
  The loop of \<^verbatim>\<open>get_channel_type\<close> over the table from entry \<open>i\<close> on. The last entry
  stops it as long as \<^verbatim>\<open>NMB_CHANNELS\<close> fits the \<^verbatim>\<open>uint16_t\<close> field; the model answers
  \<open>None\<close> (\<open>NULL\<close>) at the end of the table as well.
\<close>

fun channel_type_from ::
  "xlink_defs \<Rightarrow> xlink_channel_table_entry list \<Rightarrow> u16 \<Rightarrow> xlink_channel_type option" where
  "channel_type_from d [] chan = None"
| "channel_type_from d (e # es) chan =
     (if start_range e < NMB_CHANNELS d then
        (if start_range e \<le> unat chan \<and> unat chan \<le> stop_range e then Some (entry_type e)
         else channel_type_from d es chan)
      else None)"

definition get_channel_type :: "xlink_defs \<Rightarrow> u16 \<Rightarrow> xlink_channel_type option" where
  "get_channel_type d chan = channel_type_from d (default_channel_table d) chan"

definition is_channel_for_device :: "xlink_defs \<Rightarrow> u16 \<Rightarrow> u32 \<Rightarrow> xlink_dev_type \<Rightarrow> bool" where
  "is_channel_for_device d chan sw_device_id dev_type =
     (case get_channel_type d chan of
        None \<Rightarrow> False
      | Some chan_type \<Rightarrow>
          let interface = get_interface_from_sw_device_id d sw_device_id in
          if dev_type = VPUIP_DEVICE then local_to_ip chan_type = interface
          else remote_to_local chan_type = interface)"

text \<open>\<^verbatim>\<open>is_passthru_channel\<close> follows the table entry without a \<open>NULL\<close> check.\<close>

definition is_passthru_channel :: "xlink_defs \<Rightarrow> u16 \<Rightarrow> bool option" where
  "is_passthru_channel d chan =
     (case get_channel_type d chan of
        None \<Rightarrow> None
      | Some chan_type \<Rightarrow> Some (local_to_ip chan_type = IPC_INTERFACE))"

definition is_control_channel :: "xlink_defs \<Rightarrow> u16 \<Rightarrow> bool" where
  "is_control_channel d chan =
     (unat chan = IP_CONTROL_CHANNEL d \<or> unat chan = VPU_CONTROL_CHANNEL d)"

definition chan_is_non_blocking_read :: "channel \<Rightarrow> bool" where
  "chan_is_non_blocking_read c = (mode c = RXN_TXN \<or> mode c = RXN_TXB)"

definition chan_is_non_blocking_write :: "channel \<Rightarrow> bool" where
  "chan_is_non_blocking_write c = (mode c = RXN_TXN \<or> mode c = RXB_TXN)"

subsection \<open>Callbacks\<close>

text \<open>
  \<^verbatim>\<open>run_callback\<close>. \<open>sig_rc\<close> is what \<^verbatim>\<open>send_sig_info\<close> returns. A callback of kernel
  origin is called with the channel id.
\<close>

definition run_callback ::
  "int \<Rightarrow> open_channel \<Rightarrow> ptr \<Rightarrow> ptr \<Rightarrow> xlink_error \<times> effect list" where
  "run_callback sig_rc oc callback pid =
     (if callback_origin oc = CHR ''U'' then
        (if pid \<noteq> NULL then
           (if sig_rc < 0 then X_LINK_ERROR else X_LINK_SUCCESS,
            [Send_sig_info pid (chan_id oc) callback])
         else (X_LINK_ERROR, []))
      else (X_LINK_SUCCESS, [Call_callback callback (chan_id oc)]))"

subsection \<open>Opening and closing the runtime state\<close>

definition new_open_channel :: "xlink_defs \<Rightarrow> u16 \<Rightarrow> open_channel" where
  "new_open_channel d chan =
     \<lparr>chan_id = chan,
      rx_queue = \<lparr>count = 0, capacity = of_nat (XLINK_PACKET_QUEUE_CAPACITY d), head = []\<rparr>,
      tx_queue = \<lparr>count = 0, capacity = of_nat (XLINK_PACKET_QUEUE_CAPACITY d), head = []\<rparr>,
      rx_fill_level = 0,
      tx_fill_level = 0,
      tx_packet_level = 0,
      tx_up_limit = 0,
      ready_calling_pid = NULL,
      ready_callback = NULL,
      consumed_calling_pid = NULL,
      consumed_callback = NULL,
      callback_origin = CHR 0x00\<rparr>"

text \<open>
  \<^verbatim>\<open>multiplexer_open_channel\<close> on the slot \<^verbatim>\<open>xmux->channels[link_id][chan]\<close>; \<open>kzalloc_ok\<close>
  says whether the allocation of the runtime state succeeds.
\<close>

definition multiplexer_open_channel ::
  "xlink_defs \<Rightarrow> bool \<Rightarrow> u16 \<Rightarrow> channel \<Rightarrow> xlink_error \<times> channel" where
  "multiplexer_open_channel d kzalloc_ok chan c =
     (if opchan c \<noteq> None then (X_LINK_SUCCESS, c)
      else if \<not> kzalloc_ok then (X_LINK_ERROR, c)
      else (X_LINK_SUCCESS, c\<lparr>opchan := Some (new_open_channel d chan)\<rparr>))"

text \<open>
  One of the two loops of \<^verbatim>\<open>multiplexer_close_channel\<close>:
  \<^verbatim>\<open>while (!list_empty(&queue->head)) release_packet_from_channel(opchan, queue, NULL, NULL);\<close>
\<close>

function drain_queue ::
  "queue_sel \<Rightarrow> open_channel \<Rightarrow> effect list \<Rightarrow> open_channel \<times> effect list" where
  "drain_queue qs oc t =
     (if head (get_queue qs oc) = [] then (oc, t)
      else
        (case release_packet_from_channel oc qs NULL of
           (r, oc', sz, t') \<Rightarrow> drain_queue qs oc' (t @ t')))"
  by pat_completeness auto
termination
proof (relation "measure (\<lambda>(qs, oc, t). length (head (get_queue qs oc)))")
  show "wf (measure (\<lambda>(qs, oc, t). length (head (get_queue qs oc))))" by simp
next
  fix qs :: queue_sel and oc :: open_channel and t :: "effect list"
    and r y oc' z sz and t' :: "effect list"
  assume ne: "head (get_queue qs oc) \<noteq> []"
    and x: "(r, y) = release_packet_from_channel oc qs NULL"
    and y: "(oc', z) = y" and z: "(sz, t') = z"
  obtain p ps where ps: "head (get_queue qs oc) = p # ps"
    using ne by (cases "head (get_queue qs oc)") auto
  have "release_packet_from_channel oc qs NULL = (r, oc', sz, t')"
    using x y z by simp
  with ps have "length (head (get_queue qs oc')) < length (head (get_queue qs oc))"
    by (cases qs)
      (auto simp: release_packet_from_channel_def find_packet_def get_packet_from_channel_def
        Let_def)
  then show "((qs, oc', t @ t'), qs, oc, t) \<in>
               measure (\<lambda>(qs, oc, t). length (head (get_queue qs oc)))"
    by simp
qed

declare drain_queue.simps [simp del]

text \<open>
  \<^verbatim>\<open>multiplexer_close_channel\<close>, called with the runtime state of the slot (or \<open>NULL\<close>).
\<close>

definition multiplexer_close_channel :: "channel \<Rightarrow> xlink_error \<times> channel \<times> effect list" where
  "multiplexer_close_channel c =
     (case opchan c of
        None \<Rightarrow> (X_LINK_ERROR, c, [])
      | Some oc \<Rightarrow>
          (case drain_queue RX_QUEUE oc [] of
             (oc1, t1) \<Rightarrow>
               (case drain_queue TX_QUEUE oc1 t1 of
                  (oc2, t2) \<Rightarrow> (X_LINK_SUCCESS, c\<lparr>opchan := None\<rparr>, t2 @ [Kfree_opchan]))))"

text \<open>
  The body of the loop of \<^verbatim>\<open>xlink_multiplexer_disconnect\<close>, for one channel of the link:
  \<^verbatim>\<open>if (xmux->channels[link_id][i].opchan) multiplexer_close_channel(...)\<close>.
\<close>

definition disconnect_slot :: "channel \<Rightarrow> channel \<times> effect list" where
  "disconnect_slot c =
     (if opchan c \<noteq> None
      then (case multiplexer_close_channel c of (r, c1, t) \<Rightarrow> (c1, t))
      else (c, []))"

subsection \<open>Events and the environment\<close>

text \<open>
  \<^verbatim>\<open>struct xlink_event\<close>, the fields the multiplexer reads or writes. \<open>data_mode\<close> is
  \<^verbatim>\<open>event->data\<close> read as an operating mode (an open request carries the mode there);
  \<open>pdata_out\<close> and \<open>length_out\<close> are what is stored through \<^verbatim>\<open>event->pdata\<close> and
  \<^verbatim>\<open>event->length\<close>.
\<close>

record xlink_event =
  link_id :: nat
  header_type :: xlink_event_type
  header_chan :: u16
  header_size :: u32
  header_timeout :: u32
  handle_sw_device_id :: u32
  handle_dev_type :: xlink_dev_type
  interface :: xlink_interface
  ev_data :: ptr
  data_mode :: xlink_opmode
  ev_paddr :: dma_addr
  calling_pid :: ptr
  ev_callback_origin :: char
  pdata_out :: ptr
  length_out :: u32

text \<open>
  What the collaborators answer during one call: whether \<^verbatim>\<open>kzalloc\<close> succeeds, the
  wake-ups of the sleeps in the order they happen, the buffer of
  \<^verbatim>\<open>xlink_platform_allocate\<close> (\<open>None\<close> is \<open>NULL\<close>), the result code and the byte count of
  \<^verbatim>\<open>xlink_platform_read\<close>, the result of \<^verbatim>\<open>send_sig_info\<close>, and the relay
  \<^verbatim>\<open>xlink_passthrough\<close> to the local transport.
\<close>

record env =
  kzalloc_ok :: bool
  wakes :: "wake list"
  allocated :: "(ptr \<times> dma_addr) option"
  read_rc :: int
  read_size :: nat
  send_sig_rc :: int
  passthrough :: "xlink_event \<Rightarrow> channel \<Rightarrow> xlink_error \<times> channel"

text \<open>The state a request handler works on and hands back.\<close>

record outcome =
  rc :: xlink_error
  slot :: channel
  event :: xlink_event
  event_queued :: bool
  trace :: "effect list"

subsection \<open>Sleeping on a completion\<close>

text \<open>
  The wait the channel's timeout selects: untimed for 0, timed otherwise.
\<close>

definition chan_wait :: "channel \<Rightarrow> nat option" where
  "chan_wait c = (if timeout c = 0 then None else Some (unat (timeout c)))"

text \<open>
  The result code after a sleep, where the code maps the three outcomes
  (\<^verbatim>\<open>rc == 0\<close>: \<^verbatim>\<open>X_LINK_TIMEOUT\<close>, \<^verbatim>\<open>rc < 0\<close>: \<^verbatim>\<open>X_LINK_ERROR\<close>, \<^verbatim>\<open>rc > 0\<close>:
  \<^verbatim>\<open>X_LINK_SUCCESS\<close>). An untimed wait returns 0 when completed and cannot time out:
  \<open>None\<close> is the sleep that never ends.
\<close>

definition wake_rc :: "nat option \<Rightarrow> wait_result \<Rightarrow> xlink_error option" where
  "wake_rc tmo r =
     (case r of
        Completed \<Rightarrow> Some X_LINK_SUCCESS
      | Interrupted \<Rightarrow> Some X_LINK_ERROR
      | Timed_out \<Rightarrow> (case tmo of None \<Rightarrow> None | Some ms \<Rightarrow> Some X_LINK_TIMEOUT))"

text \<open>
  The same for the untimed waits of the read requests, which keep the negative
  return value as it is.
\<close>

definition wake_rc_unmapped :: "nat option \<Rightarrow> wait_result \<Rightarrow> xlink_error option" where
  "wake_rc_unmapped tmo r =
     (case tmo of
        None \<Rightarrow>
          (case r of
             Completed \<Rightarrow> Some X_LINK_SUCCESS
           | Interrupted \<Rightarrow> Some NEG_ERESTARTSYS
           | Timed_out \<Rightarrow> None)
      | Some ms \<Rightarrow> wake_rc tmo r)"

text \<open>
  One sleep: unlock, wait on the completion, lock again. \<open>f\<close> is the mapping of the
  return value the call site applies.
\<close>

definition sleep ::
  "(nat option \<Rightarrow> wait_result \<Rightarrow> xlink_error option) \<Rightarrow> completion \<Rightarrow> nat option \<Rightarrow>
   open_channel \<Rightarrow> wake list \<Rightarrow> (xlink_error \<times> open_channel \<times> wake list \<times> effect list) run" where
  "sleep f cpl tmo oc ws =
     (case ws of
        [] \<Rightarrow> Blocked
      | w # ws' \<Rightarrow>
          (case f tmo (result w) of
             None \<Rightarrow> Blocked
           | Some r \<Rightarrow> Returns (r, during w oc, ws', [Wait cpl tmo])))"

subsection \<open>Transmit entry point: write requests\<close>

text \<open>
  The loop \<^verbatim>\<open>while (!is_enough_space_in_channel(opchan, event->header.size))\<close> of the
  write requests. It returns the result code, the runtime state, the wake-ups not yet
  used and the trace.
\<close>

fun wait_for_space ::
  "xlink_defs \<Rightarrow> channel \<Rightarrow> u32 \<Rightarrow> open_channel \<Rightarrow> wake list \<Rightarrow> effect list \<Rightarrow>
   (xlink_error \<times> open_channel \<times> wake list \<times> effect list) run" where
  "wait_for_space d c sz oc ws t =
     (case is_enough_space_in_channel d c oc sz of
        (True, oc') \<Rightarrow> Returns (X_LINK_SUCCESS, oc', ws, t)
      | (False, oc') \<Rightarrow>
          if mode c = RXN_TXB \<or> mode c = RXB_TXB then
            (case ws of
               [] \<Rightarrow> Blocked
             | w # ws' \<Rightarrow>
                 (case wake_rc (chan_wait c) (result w) of
                    None \<Rightarrow> Blocked
                  | Some r \<Rightarrow>
                      if r = X_LINK_SUCCESS
                      then wait_for_space d c sz (during w oc') ws'
                             (t @ [Wait PKT_RELEASED (chan_wait c)])
                      else Returns (r, during w oc', ws',
                             t @ [Wait PKT_RELEASED (chan_wait c)])))
          else Returns (X_LINK_CHAN_FULL, oc', ws, t))"

declare wait_for_space.simps [simp del]

text \<open>The retyping of a write request that is relayed to the local transport.\<close>

definition passthru_write_type :: "xlink_event_type \<Rightarrow> xlink_event_type \<times> bool" where
  "passthru_write_type ty =
     (if ty = XLINK_WRITE_REQ then (XLINK_PASSTHRU_WRITE_REQ, True)
      else if ty = XLINK_WRITE_CONTROL_REQ \<or> ty = XLINK_WRITE_VOLATILE_REQ
        then (XLINK_PASSTHRU_VOLATILE_WRITE_REQ, True)
      else (ty, False))"

text \<open>
  The cases \<^verbatim>\<open>XLINK_WRITE_REQ\<close>, \<^verbatim>\<open>XLINK_WRITE_VOLATILE_REQ\<close> and
  \<^verbatim>\<open>XLINK_WRITE_CONTROL_REQ\<close> of \<^verbatim>\<open>xlink_multiplexer_tx\<close>.
\<close>

definition tx_write_req :: "xlink_defs \<Rightarrow> env \<Rightarrow> xlink_event \<Rightarrow> channel \<Rightarrow> outcome run" where
  "tx_write_req d e ev c =
     (case opchan c of
        None \<Rightarrow>
          Returns \<lparr>rc = X_LINK_COMMUNICATION_FAIL, slot = c, event = ev,
                   event_queued = False, trace = []\<rparr>
      | Some oc \<Rightarrow>
          if status c \<noteq> CHAN_OPEN then
            Returns \<lparr>rc = X_LINK_COMMUNICATION_FAIL, slot = c, event = ev,
                     event_queued = False, trace = []\<rparr>
          else
            let ev1 = ev\<lparr>header_timeout := timeout c\<rparr> in
            (case wait_for_space d c (header_size ev1) oc (wakes e) [] of
               Blocked \<Rightarrow> Blocked
             | Null_deref \<Rightarrow> Null_deref
             | Returns (r, oc1, ws1, t1) \<Rightarrow>
                 if r \<noteq> X_LINK_SUCCESS then
                   Returns \<lparr>rc = r, slot = c\<lparr>opchan := Some oc1\<rparr>, event = ev1,
                            event_queued = False, trace = t1\<rparr>
                 else
                   let oc2 = oc1\<lparr>tx_fill_level := tx_fill_level oc1 + header_size ev1,
                                 tx_packet_level := tx_packet_level oc1 + 1\<rparr>
                   in
                   (case is_passthru_channel d (header_chan ev1) of
                      None \<Rightarrow> Null_deref
                    | Some True \<Rightarrow>
                        (case passthru_write_type (header_type ev1) of
                           (ty, known) \<Rightarrow>
                             Returns \<lparr>rc = (if known then X_LINK_SUCCESS else X_LINK_ERROR),
                                      slot = c\<lparr>opchan := Some oc2\<rparr>,
                                      event = ev1\<lparr>header_type := ty\<rparr>,
                                      event_queued = True,
                                      trace = t1 @ [Dispatcher_event_add EVENT_TX ty]\<rparr>)
                    | Some False \<Rightarrow>
                        let t2 = t1 @ [Dispatcher_event_add EVENT_TX (header_type ev1)] in
                        if mode c = RXN_TXB \<or> mode c = RXB_TXB then
                          (case sleep wake_rc PKT_CONSUMED (chan_wait c) oc2 ws1 of
                             Blocked \<Rightarrow> Blocked
                           | Null_deref \<Rightarrow> Null_deref
                           | Returns (r2, oc3, ws2, t3) \<Rightarrow>
                               Returns \<lparr>rc = r2, slot = c\<lparr>opchan := Some oc3\<rparr>,
                                        event = ev1, event_queued = True,
                                        trace = t2 @ t3\<rparr>)
                        else
                          Returns \<lparr>rc = X_LINK_SUCCESS, slot = c\<lparr>opchan := Some oc2\<rparr>,
                                   event = ev1, event_queued = True, trace = t2\<rparr>)))"

subsection \<open>Transmit entry point: read, release and callback requests\<close>

definition failed :: "xlink_error \<Rightarrow> xlink_event \<Rightarrow> channel \<Rightarrow> outcome" where
  "failed r ev c = \<lparr>rc = r, slot = c, event = ev, event_queued = False, trace = []\<rparr>"

text \<open>
  The wait of the two read requests on \<^verbatim>\<open>pkt_available\<close>, taken when the mode marks
  receive as blocking.
\<close>

definition wait_for_packet ::
  "channel \<Rightarrow> open_channel \<Rightarrow> wake list \<Rightarrow>
   (xlink_error \<times> open_channel \<times> wake list \<times> effect list) run" where
  "wait_for_packet c oc ws =
     (if mode c = RXB_TXN \<or> mode c = RXB_TXB
      then sleep wake_rc_unmapped PKT_AVAILABLE (chan_wait c) oc ws
      else Returns (X_LINK_SUCCESS, oc, ws, []))"

text \<open>Case \<^verbatim>\<open>XLINK_READ_REQ\<close> of \<^verbatim>\<open>xlink_multiplexer_tx\<close>.\<close>

definition tx_read_req :: "xlink_defs \<Rightarrow> env \<Rightarrow> xlink_event \<Rightarrow> channel \<Rightarrow> outcome run" where
  "tx_read_req d e ev c =
     (case opchan c of
        None \<Rightarrow> Returns (failed X_LINK_COMMUNICATION_FAIL ev c)
      | Some oc \<Rightarrow>
          if status c \<noteq> CHAN_OPEN then Returns (failed X_LINK_COMMUNICATION_FAIL ev c)
          else
            (case is_passthru_channel d (header_chan ev) of
               None \<Rightarrow> Null_deref
             | Some pt \<Rightarrow>
                 let t0 = (if pt
                           then [Create_event XLINK_PASSTHRU_READ_REQ (header_chan ev) 0 (timeout c),
                                 Dispatcher_event_add EVENT_TX XLINK_PASSTHRU_READ_REQ]
                           else []);
                     ev1 = (if pt then ev\<lparr>header_type := XLINK_PASSTHRU_READ_REQ\<rparr> else ev)
                             \<lparr>header_timeout := timeout c\<rparr>
                 in
                 (case wait_for_packet c oc (wakes e) of
                    Blocked \<Rightarrow> Blocked
                  | Null_deref \<Rightarrow> Null_deref
                  | Returns (r, oc1, ws1, t1) \<Rightarrow>
                      if r \<noteq> X_LINK_SUCCESS then
                        Returns \<lparr>rc = r, slot = c\<lparr>opchan := Some oc1\<rparr>, event = ev1,
                                 event_queued = pt, trace = t0 @ t1\<rparr>
                      else
                        (case get_packet_from_channel (rx_queue oc1) of
                           None \<Rightarrow>
                             Returns \<lparr>rc = X_LINK_ERROR, slot = c\<lparr>opchan := Some oc1\<rparr>,
                                      event = ev1, event_queued = pt, trace = t0 @ t1\<rparr>
                         | Some pkt \<Rightarrow>
                             let ev2 = (if header_type ev1 = XLINK_PASSTHRU_READ_REQ
                                        then ev1\<lparr>header_type := XLINK_READ_REQ\<rparr> else ev1)
                                         \<lparr>pdata_out := pkt_data pkt, length_out := pkt_length pkt\<rparr>
                             in
                             Returns \<lparr>rc = X_LINK_SUCCESS, slot = c\<lparr>opchan := Some oc1\<rparr>,
                                      event = ev2, event_queued = True,
                                      trace = t0 @ t1 @
                                        [Dispatcher_event_add EVENT_TX (header_type ev2)]\<rparr>))))"

text \<open>
  Case \<^verbatim>\<open>XLINK_READ_TO_BUFFER_REQ\<close> of \<^verbatim>\<open>xlink_multiplexer_tx\<close>. The copy into the
  caller's buffer leaves no trace; the length stored last is the length of the packet
  found, also when the packet has been released in between.
\<close>

definition tx_read_to_buffer_req ::
  "xlink_defs \<Rightarrow> env \<Rightarrow> xlink_event \<Rightarrow> channel \<Rightarrow> outcome run" where
  "tx_read_to_buffer_req d e ev c =
     (case opchan c of
        None \<Rightarrow> Returns (failed X_LINK_COMMUNICATION_FAIL ev c)
      | Some oc \<Rightarrow>
          if status c \<noteq> CHAN_OPEN then Returns (failed X_LINK_COMMUNICATION_FAIL ev c)
          else
            (case is_passthru_channel d (header_chan ev) of
               None \<Rightarrow> Null_deref
             | Some pt \<Rightarrow>
                 let t0 = (if pt
                           then [Create_event XLINK_PASSTHRU_READ_TO_BUFFER_REQ (header_chan ev) 0
                                   (timeout c),
                                 Dispatcher_event_add EVENT_TX XLINK_PASSTHRU_READ_TO_BUFFER_REQ]
                           else []);
                     ev1 = ev\<lparr>header_timeout := timeout c\<rparr>
                 in
                 (case wait_for_packet c oc (wakes e) of
                    Blocked \<Rightarrow> Blocked
                  | Null_deref \<Rightarrow> Null_deref
                  | Returns (r, oc1, ws1, t1) \<Rightarrow>
                      if r \<noteq> X_LINK_SUCCESS then
                        Returns \<lparr>rc = r, slot = c\<lparr>opchan := Some oc1\<rparr>, event = ev1,
                                 event_queued = False, trace = t0 @ t1\<rparr>
                      else
                        (case get_packet_from_channel (rx_queue oc1) of
                           None \<Rightarrow>
                             Returns \<lparr>rc = X_LINK_ERROR, slot = c\<lparr>opchan := Some oc1\<rparr>,
                                      event = ev1, event_queued = False, trace = t0 @ t1\<rparr>
                         | Some pkt \<Rightarrow>
                             (case (if pt
                                    then release_packet_from_channel oc1 RX_QUEUE (pkt_data pkt)
                                    else (X_LINK_SUCCESS, oc1, None, [])) of
                                (r2, oc2, sz, t2) \<Rightarrow>
                                  Returns \<lparr>rc = r2, slot = c\<lparr>opchan := Some oc2\<rparr>,
                                           event = ev1\<lparr>length_out := pkt_length pkt\<rparr>,
                                           event_queued = True,
                                           trace = t0 @ t1 @ t2 @
                                             [Dispatcher_event_add EVENT_TX
                                                XLINK_READ_TO_BUFFER_REQ]\<rparr>)))))"

text \<open>Case \<^verbatim>\<open>XLINK_RELEASE_REQ\<close> of \<^verbatim>\<open>xlink_multiplexer_tx\<close>.\<close>

definition tx_release_req :: "xlink_event \<Rightarrow> channel \<Rightarrow> outcome run" where
  "tx_release_req ev c =
     (case opchan c of
        None \<Rightarrow> Returns (failed X_LINK_COMMUNICATION_FAIL ev c)
      | Some oc \<Rightarrow>
          (case release_packet_from_channel oc RX_QUEUE (ev_data ev) of
             (r, oc1, sz, t) \<Rightarrow>
               if r \<noteq> X_LINK_SUCCESS then
                 Returns \<lparr>rc = X_LINK_ERROR, slot = c\<lparr>opchan := Some oc1\<rparr>, event = ev,
                          event_queued = False, trace = t\<rparr>
               else
                 Returns \<lparr>rc = X_LINK_SUCCESS, slot = c\<lparr>opchan := Some oc1\<rparr>,
                          event = ev\<lparr>header_size := (case sz of None \<Rightarrow> 0 | Some n \<Rightarrow> n)\<rparr>,
                          event_queued = True,
                          trace = t @ [Dispatcher_event_add EVENT_TX XLINK_RELEASE_REQ]\<rparr>))"

text \<open>
  Cases \<^verbatim>\<open>XLINK_DATA_READY_CALLBACK_REQ\<close> and \<^verbatim>\<open>XLINK_DATA_CONSUMED_CALLBACK_REQ\<close> of
  \<^verbatim>\<open>xlink_multiplexer_tx\<close>.
\<close>

definition tx_data_ready_callback_req :: "xlink_event \<Rightarrow> channel \<Rightarrow> outcome run" where
  "tx_data_ready_callback_req ev c =
     (case opchan c of
        None \<Rightarrow> Returns (failed X_LINK_COMMUNICATION_FAIL ev c)
      | Some oc \<Rightarrow>
          Returns \<lparr>rc = X_LINK_SUCCESS,
                   slot = c\<lparr>opchan := Some (oc\<lparr>ready_callback := ev_data ev,
                                                ready_calling_pid := calling_pid ev,
                                                callback_origin := ev_callback_origin ev\<rparr>)\<rparr>,
                   event = ev, event_queued = False, trace = []\<rparr>)"

definition tx_data_consumed_callback_req :: "xlink_event \<Rightarrow> channel \<Rightarrow> outcome run" where
  "tx_data_consumed_callback_req ev c =
     (case opchan c of
        None \<Rightarrow> Returns (failed X_LINK_COMMUNICATION_FAIL ev c)
      | Some oc \<Rightarrow>
          Returns \<lparr>rc = X_LINK_SUCCESS,
                   slot = c\<lparr>opchan := Some (oc\<lparr>consumed_callback := ev_data ev,
                                                consumed_calling_pid := calling_pid ev,
                                                callback_origin := ev_callback_origin ev\<rparr>)\<rparr>,
                   event = ev, event_queued = False, trace = []\<rparr>)"

subsection \<open>Transmit entry point: open and close requests\<close>

text \<open>
  Case \<^verbatim>\<open>XLINK_OPEN_CHANNEL_REQ\<close> of \<^verbatim>\<open>xlink_multiplexer_tx\<close>. The wait on \<^verbatim>\<open>opened\<close> is
  always the timed one, with \<^verbatim>\<open>OPEN_CHANNEL_TIMEOUT_MSEC\<close>.
\<close>

definition tx_open_channel_req ::
  "xlink_defs \<Rightarrow> env \<Rightarrow> xlink_event \<Rightarrow> channel \<Rightarrow> outcome run" where
  "tx_open_channel_req d e ev c =
     (if status c = CHAN_CLOSED then
        let c1 = c\<lparr>chan_size := header_size ev, timeout := header_timeout ev,
                   mode := data_mode ev\<rparr>
        in
        (case multiplexer_open_channel d (kzalloc_ok e) (header_chan ev) c1 of
           (r, c2) \<Rightarrow>
             if r \<noteq> X_LINK_SUCCESS then Returns (failed X_LINK_ERROR ev c2)
             else
               (case opchan c2 of
                  None \<Rightarrow> Returns (failed X_LINK_COMMUNICATION_FAIL ev c2)
                | Some oc \<Rightarrow>
                    (case sleep wake_rc OPENED (Some OPEN_CHANNEL_TIMEOUT_MSEC) oc (wakes e) of
                       Blocked \<Rightarrow> Blocked
                     | Null_deref \<Rightarrow> Null_deref
                     | Returns (r2, oc1, ws1, t1) \<Rightarrow>
                         let c3 = c2\<lparr>opchan := Some oc1\<rparr>;
                             t2 = Dispatcher_event_add EVENT_TX XLINK_OPEN_CHANNEL_REQ # t1
                         in
                         if r2 = X_LINK_SUCCESS then
                           Returns \<lparr>rc = X_LINK_SUCCESS, slot = c3\<lparr>status := CHAN_OPEN\<rparr>,
                                    event = ev, event_queued = True, trace = t2\<rparr>
                         else
                           (case multiplexer_close_channel c3 of
                              (r3, c4, t3) \<Rightarrow>
                                Returns \<lparr>rc = r2, slot = c4, event = ev,
                                         event_queued = True, trace = t2 @ t3\<rparr>))))
      else if status c = CHAN_OPEN_PEER then
        let c1 = c\<lparr>status := CHAN_OPEN, chan_size := header_size ev,
                   timeout := header_timeout ev, mode := data_mode ev\<rparr>
        in
        (case multiplexer_open_channel d (kzalloc_ok e) (header_chan ev) c1 of
           (r, c2) \<Rightarrow>
             Returns \<lparr>rc = X_LINK_SUCCESS, slot = c2, event = ev, event_queued = False,
                      trace = []\<rparr>)
      else Returns (failed X_LINK_ALREADY_OPEN ev c))"

text \<open>Case \<^verbatim>\<open>XLINK_CLOSE_CHANNEL_REQ\<close> of \<^verbatim>\<open>xlink_multiplexer_tx\<close>.\<close>

definition tx_close_channel_req :: "xlink_event \<Rightarrow> channel \<Rightarrow> outcome run" where
  "tx_close_channel_req ev c =
     (if status c = CHAN_OPEN then
        (case multiplexer_close_channel c of
           (r, c1, t) \<Rightarrow>
             if r \<noteq> X_LINK_SUCCESS then
               Returns \<lparr>rc = X_LINK_ERROR, slot = c1, event = ev, event_queued = False,
                        trace = t\<rparr>
             else
               Returns \<lparr>rc = X_LINK_SUCCESS, slot = c1\<lparr>status := CHAN_CLOSED\<rparr>, event = ev,
                        event_queued = False, trace = t\<rparr>)
      else Returns (failed X_LINK_ERROR ev c))"

subsection \<open>Transmit entry point\<close>

text \<open>
  \<^verbatim>\<open>xlink_multiplexer_tx\<close> on the slot \<^verbatim>\<open>xmux->channels[event->link_id][event->header.chan]\<close>,
  with the multiplexer initialised and the event not \<open>NULL\<close>.
\<close>

definition xlink_multiplexer_tx ::
  "xlink_defs \<Rightarrow> env \<Rightarrow> xlink_event \<Rightarrow> channel \<Rightarrow> outcome run" where
  "xlink_multiplexer_tx d e ev c =
     (let chan = header_chan ev in
      if NMB_CHANNELS d \<le> unat chan then Returns (failed X_LINK_ERROR ev c)
      else if \<not> is_channel_for_device d chan (handle_sw_device_id ev) (handle_dev_type ev)
        then Returns (failed X_LINK_ERROR ev c)
      else if is_control_channel d chan then Returns (failed X_LINK_ERROR ev c)
      else if unat chan < XLINK_IPC_MAX_CHANNELS d \<and> interface ev = IPC_INTERFACE then
        (case passthrough e ev c of
           (r, c1) \<Rightarrow>
             Returns \<lparr>rc = r, slot = c1, event = ev, event_queued = False,
                      trace = [Passthrough (header_type ev)]\<rparr>)
      else
        (case header_type ev of
           XLINK_WRITE_REQ \<Rightarrow> tx_write_req d e ev c
         | XLINK_WRITE_VOLATILE_REQ \<Rightarrow> tx_write_req d e ev c
         | XLINK_WRITE_CONTROL_REQ \<Rightarrow> tx_write_req d e ev c
         | XLINK_READ_REQ \<Rightarrow> tx_read_req d e ev c
         | XLINK_READ_TO_BUFFER_REQ \<Rightarrow> tx_read_to_buffer_req d e ev c
         | XLINK_RELEASE_REQ \<Rightarrow> tx_release_req ev c
         | XLINK_OPEN_CHANNEL_REQ \<Rightarrow> tx_open_channel_req d e ev c
         | XLINK_DATA_READY_CALLBACK_REQ \<Rightarrow> tx_data_ready_callback_req ev c
         | XLINK_DATA_CONSUMED_CALLBACK_REQ \<Rightarrow> tx_data_consumed_callback_req ev c
         | XLINK_CLOSE_CHANNEL_REQ \<Rightarrow> tx_close_channel_req ev c
         | XLINK_PING_REQ \<Rightarrow> Returns (failed X_LINK_SUCCESS ev c)
         | _ \<Rightarrow> Returns (failed X_LINK_ERROR ev c)))"

subsection \<open>Receive entry point\<close>

text \<open>
  The cases of \<^verbatim>\<open>xlink_multiplexer_rx\<close> that serve the channel queues and the open
  handshake. The four \<^verbatim>\<open>XLINK_PASSTHRU_*\<close> cases, which relay to the local transport, are
  not embedded.

  Cases \<^verbatim>\<open>XLINK_WRITE_REQ\<close> and \<^verbatim>\<open>XLINK_WRITE_VOLATILE_REQ\<close>.
\<close>

definition rx_write_req :: "env \<Rightarrow> xlink_event \<Rightarrow> channel \<Rightarrow> outcome run" where
  "rx_write_req e ev c =
     (case opchan c of
        None \<Rightarrow> Returns (failed X_LINK_COMMUNICATION_FAIL ev c)
      | Some oc \<Rightarrow>
          let ev1 = ev\<lparr>header_timeout := timeout c\<rparr>;
              t0 = [Platform_allocate (header_size ev) XLINK_NORMAL_MEMORY]
          in
          (case allocated e of
             None \<Rightarrow>
               Returns \<lparr>rc = X_LINK_ERROR, slot = c, event = ev1, event_queued = False,
                        trace = t0\<rparr>
           | Some (buffer, pa) \<Rightarrow>
               let t1 = t0 @ [Platform_read (interface ev) (handle_sw_device_id ev) buffer
                                (timeout c)];
                   undo = [Platform_deallocate buffer pa (header_size ev) XLINK_NORMAL_MEMORY]
               in
               if read_rc e \<noteq> 0 \<or> unat (header_size ev) \<noteq> read_size e then
                 Returns \<lparr>rc = X_LINK_ERROR, slot = c, event = ev1, event_queued = False,
                          trace = t1 @ undo\<rparr>
               else
                 let ev2 = ev1\<lparr>ev_paddr := pa, ev_data := buffer\<rparr> in
                 (case add_packet_to_channel (kzalloc_ok e) oc RX_QUEUE buffer
                         (header_size ev) pa of
                    (r, oc1) \<Rightarrow>
                      if r \<noteq> X_LINK_SUCCESS then
                        Returns \<lparr>rc = X_LINK_ERROR, slot = c\<lparr>opchan := Some oc1\<rparr>,
                                 event = ev2, event_queued = False, trace = t1 @ undo\<rparr>
                      else
                        let ev3 = ev2\<lparr>header_type := XLINK_WRITE_VOLATILE_RESP\<rparr>;
                            t2 = t1 @ [Dispatcher_event_add EVENT_RX XLINK_WRITE_VOLATILE_RESP,
                                       Complete PKT_AVAILABLE];
                            c1 = c\<lparr>opchan := Some oc1\<rparr>
                        in
                        if status c = CHAN_OPEN \<and> chan_is_non_blocking_read c \<and>
                           ready_callback oc1 \<noteq> NULL
                        then
                          (case run_callback (send_sig_rc e) oc1 (ready_callback oc1)
                                  (ready_calling_pid oc1) of
                             (r2, t3) \<Rightarrow>
                               Returns \<lparr>rc = r2, slot = c1, event = ev3,
                                        event_queued = False, trace = t2 @ t3\<rparr>)
                        else
                          Returns \<lparr>rc = X_LINK_SUCCESS, slot = c1, event = ev3,
                                   event_queued = False, trace = t2\<rparr>)))"

text \<open>Case \<^verbatim>\<open>XLINK_WRITE_CONTROL_REQ\<close>: the payload comes with the header, there is no read.\<close>

definition rx_write_control_req :: "env \<Rightarrow> xlink_event \<Rightarrow> channel \<Rightarrow> outcome run" where
  "rx_write_control_req e ev c =
     (case opchan c of
        None \<Rightarrow> Returns (failed X_LINK_COMMUNICATION_FAIL ev c)
      | Some oc \<Rightarrow>
          let ev1 = ev\<lparr>header_timeout := timeout c\<rparr>;
              t0 = [Platform_allocate (header_size ev) XLINK_NORMAL_MEMORY]
          in
          (case allocated e of
             None \<Rightarrow>
               Returns \<lparr>rc = X_LINK_ERROR, slot = c, event = ev1, event_queued = False,
                        trace = t0\<rparr>
           | Some (buffer, pa) \<Rightarrow>
               let ev2 = ev1\<lparr>ev_paddr := pa, ev_data := buffer\<rparr> in
               (case add_packet_to_channel (kzalloc_ok e) oc RX_QUEUE buffer
                       (header_size ev) pa of
                  (r, oc1) \<Rightarrow>
                    if r \<noteq> X_LINK_SUCCESS then
                      Returns \<lparr>rc = X_LINK_ERROR, slot = c\<lparr>opchan := Some oc1\<rparr>,
                               event = ev2, event_queued = False,
                               trace = t0 @ [Platform_deallocate buffer pa (header_size ev)
                                               XLINK_NORMAL_MEMORY]\<rparr>
                    else
                      Returns \<lparr>rc = X_LINK_SUCCESS, slot = c\<lparr>opchan := Some oc1\<rparr>,
                               event = ev2\<lparr>header_type := XLINK_WRITE_CONTROL_RESP\<rparr>,
                               event_queued = False,
                               trace = t0 @ [Dispatcher_event_add EVENT_RX
                                               XLINK_WRITE_CONTROL_RESP,
                                             Complete PKT_AVAILABLE]\<rparr>)))"

text \<open>
  Cases \<^verbatim>\<open>XLINK_READ_REQ\<close> and \<^verbatim>\<open>XLINK_READ_TO_BUFFER_REQ\<close>. The callback test follows
  the runtime state also when the lookup returned \<open>NULL\<close>.
\<close>

definition rx_read_req :: "env \<Rightarrow> xlink_event \<Rightarrow> channel \<Rightarrow> outcome run" where
  "rx_read_req e ev c =
     (case opchan c of
        None \<Rightarrow>
          if status c = CHAN_OPEN then Null_deref
          else Returns (failed X_LINK_COMMUNICATION_FAIL ev c)
      | Some oc \<Rightarrow>
          let ev1 = ev\<lparr>header_timeout := timeout c, header_type := XLINK_READ_TO_BUFFER_RESP\<rparr>;
              t0 = [Dispatcher_event_add EVENT_RX XLINK_READ_TO_BUFFER_RESP,
                    Complete PKT_CONSUMED]
          in
          if status c = CHAN_OPEN \<and> chan_is_non_blocking_write c \<and>
             consumed_callback oc \<noteq> NULL
          then
            (case run_callback (send_sig_rc e) oc (consumed_callback oc)
                    (consumed_calling_pid oc) of
               (r, t1) \<Rightarrow>
                 Returns \<lparr>rc = r, slot = c, event = ev1, event_queued = False,
                          trace = t0 @ t1\<rparr>)
          else
            Returns \<lparr>rc = X_LINK_SUCCESS, slot = c, event = ev1, event_queued = False,
                     trace = t0\<rparr>)"

text \<open>Case \<^verbatim>\<open>XLINK_RELEASE_REQ\<close>: the peer has released a packet this side wrote.\<close>

definition rx_release_req :: "xlink_event \<Rightarrow> channel \<Rightarrow> outcome run" where
  "rx_release_req ev c =
     (case opchan c of
        None \<Rightarrow> Returns (failed X_LINK_COMMUNICATION_FAIL ev c)
      | Some oc \<Rightarrow>
          Returns \<lparr>rc = X_LINK_SUCCESS,
                   slot = c\<lparr>opchan := Some (oc\<lparr>tx_fill_level := tx_fill_level oc - header_size ev,
                                                tx_packet_level := tx_packet_level oc - 1\<rparr>)\<rparr>,
                   event = ev\<lparr>header_timeout := timeout c, header_type := XLINK_RELEASE_RESP\<rparr>,
                   event_queued = False,
                   trace = [Dispatcher_event_add EVENT_RX XLINK_RELEASE_RESP,
                            Complete PKT_RELEASED]\<rparr>)"

text \<open>
  Case \<^verbatim>\<open>XLINK_OPEN_CHANNEL_REQ\<close>: the peer opens the channel. The result code is the one
  of the relay that ends the case.
\<close>

definition rx_open_channel_req ::
  "xlink_defs \<Rightarrow> env \<Rightarrow> xlink_event \<Rightarrow> channel \<Rightarrow> outcome run" where
  "rx_open_channel_req d e ev c =
     (let (c3, t) =
        (if status c = CHAN_CLOSED then
           let c1 = c\<lparr>chan_size := header_size ev, timeout := header_timeout ev\<rparr> in
           (case multiplexer_open_channel d (kzalloc_ok e) (header_chan ev) c1 of
              (r, c2) \<Rightarrow>
                if r \<noteq> X_LINK_SUCCESS then (c2, [])
                else
                  (case opchan c2 of
                     None \<Rightarrow> (c2, [])
                   | Some oc \<Rightarrow>
                       (c2\<lparr>status := CHAN_OPEN_PEER\<rparr>,
                        [Complete OPENED,
                         Create_event XLINK_OPEN_CHANNEL_RESP (header_chan ev) 0 (timeout c2),
                         Dispatcher_event_add EVENT_RX XLINK_OPEN_CHANNEL_RESP])))
         else
           (case opchan c of
              None \<Rightarrow> (c, [])
            | Some oc \<Rightarrow>
                (c, [Create_event XLINK_OPEN_CHANNEL_RESP (header_chan ev) 0 0,
                     Dispatcher_event_add EVENT_RX XLINK_OPEN_CHANNEL_RESP])))
      in
      (case passthrough e ev c3 of
         (r, c4) \<Rightarrow>
           Returns \<lparr>rc = r, slot = c4, event = ev, event_queued = False,
                    trace = t @ [Passthrough XLINK_OPEN_CHANNEL_REQ] @
                      (if r = X_LINK_SUCCESS then [Destroy_event] else [])\<rparr>))"

text \<open>Case \<^verbatim>\<open>XLINK_OPEN_CHANNEL_RESP\<close>: the peer acknowledges an open request.\<close>

definition rx_open_channel_resp :: "xlink_event \<Rightarrow> channel \<Rightarrow> outcome run" where
  "rx_open_channel_resp ev c =
     (case opchan c of
        None \<Rightarrow> Returns (failed X_LINK_COMMUNICATION_FAIL ev c)
      | Some oc \<Rightarrow>
          Returns \<lparr>rc = X_LINK_SUCCESS, slot = c, event = ev, event_queued = False,
                   trace = [Destroy_event, Complete OPENED]\<rparr>)"

subsection \<open>The write entry points of xlink-core.c\<close>

text \<open>
  \<^verbatim>\<open>struct xlink_handle\<close>, \<^verbatim>\<open>struct xlink_link\<close> and the link table of
  \<^verbatim>\<open>struct keembay_xlink_dev\<close>.
\<close>

record xlink_handle =
  sw_device_id :: u32
  dev_type :: xlink_dev_type

record xlink_link =
  link_ident :: nat
  handle :: xlink_handle

record keembay_xlink_dev =
  links :: "xlink_link list"

definition get_link_by_sw_device_id :: "keembay_xlink_dev \<Rightarrow> u32 \<Rightarrow> xlink_link option" where
  "get_link_by_sw_device_id dev sw = find (\<lambda>l. sw_device_id (handle l) = sw) (links dev)"

text \<open>
  \<^verbatim>\<open>xlink_create_event\<close> belongs to the dispatcher, which is not among the sources: it is
  an argument of the entry points (\<open>None\<close> when it returns \<open>NULL\<close>).
\<close>

type_synonym create_event =
  "nat \<Rightarrow> xlink_event_type \<Rightarrow> xlink_handle \<Rightarrow> u16 \<Rightarrow> u32 \<Rightarrow> u32 \<Rightarrow> xlink_event option"

text \<open>The table \<^verbatim>\<open>xmux->channels\<close>, and \<^verbatim>\<open>xlink_multiplexer_tx\<close> working on it.\<close>

type_synonym channels = "nat \<Rightarrow> u16 \<Rightarrow> channel"

definition multiplexer_tx ::
  "xlink_defs \<Rightarrow> env \<Rightarrow> xlink_event \<Rightarrow> channels \<Rightarrow> (outcome \<times> channels) run" where
  "multiplexer_tx d e ev xm =
     (case xlink_multiplexer_tx d e ev (xm (link_id ev) (header_chan ev)) of
        Returns out \<Rightarrow>
          Returns (out, xm(link_id ev := (xm (link_id ev))(header_chan ev := slot out)))
      | Blocked \<Rightarrow> Blocked
      | Null_deref \<Rightarrow> Null_deref)"

text \<open>
  \<^verbatim>\<open>xlink_write_data\<close>. \<open>xlink\<close> and \<open>hdl\<close> are the global device and the handle, \<open>None\<close>
  for \<open>NULL\<close>; \<open>pmessage_at\<close> is the address of the parameter \<^verbatim>\<open>pmessage\<close>, which the relayed
  variant passes on. The result is the return value, the channel table and the trace.
\<close>

definition xlink_write_data ::
  "xlink_defs \<Rightarrow> create_event \<Rightarrow> env \<Rightarrow> keembay_xlink_dev option \<Rightarrow> xlink_handle option \<Rightarrow>
   u16 \<Rightarrow> ptr \<Rightarrow> ptr \<Rightarrow> u32 \<Rightarrow> channels \<Rightarrow> (xlink_error \<times> channels \<times> effect list) run" where
  "xlink_write_data d create e xlink hdl chan pmessage pmessage_at sz xm =
     (case (xlink, hdl) of
        (Some dev, Some h) \<Rightarrow>
          if XLINK_MAX_DATA_SIZE d < unat sz then Returns (X_LINK_ERROR, xm, [])
          else
            (case get_link_by_sw_device_id dev (sw_device_id h) of
               None \<Rightarrow> Returns (X_LINK_ERROR, xm, [])
             | Some link \<Rightarrow>
                 let t0 = [Create_event XLINK_WRITE_REQ chan sz 0] in
                 (case create (link_ident link) XLINK_WRITE_REQ (handle link) chan sz 0 of
                    None \<Rightarrow> Returns (X_LINK_ERROR, xm, t0)
                  | Some ev \<Rightarrow>
                      if unat chan < XLINK_IPC_MAX_CHANNELS d \<and> interface ev = IPC_INTERFACE
                      then
                        (case multiplexer_tx d e (ev\<lparr>ev_data := pmessage_at\<rparr>) xm of
                           Returns (out, xm1) \<Rightarrow>
                             Returns (rc out, xm1, t0 @ trace out @ [Destroy_event])
                         | Blocked \<Rightarrow> Blocked
                         | Null_deref \<Rightarrow> Null_deref)
                      else
                        (case multiplexer_tx d e (ev\<lparr>ev_data := pmessage, ev_paddr := 0\<rparr>) xm of
                           Returns (out, xm1) \<Rightarrow>
                             Returns (rc out, xm1,
                               t0 @ trace out @
                                 (if event_queued out then [] else [Destroy_event]))
                         | Blocked \<Rightarrow> Blocked
                         | Null_deref \<Rightarrow> Null_deref)))
      | _ \<Rightarrow> Returns (X_LINK_ERROR, xm, []))"

text \<open>\<^verbatim>\<open>xlink_write_control_data\<close>: the payload is copied into the event header.\<close>

definition xlink_write_control_data ::
  "xlink_defs \<Rightarrow> create_event \<Rightarrow> env \<Rightarrow> keembay_xlink_dev option \<Rightarrow> xlink_handle option \<Rightarrow>
   u16 \<Rightarrow> ptr \<Rightarrow> u32 \<Rightarrow> channels \<Rightarrow> (xlink_error \<times> channels \<times> effect list) run" where
  "xlink_write_control_data d create e xlink hdl chan pmessage sz xm =
     (case (xlink, hdl) of
        (Some dev, Some h) \<Rightarrow>
          if XLINK_MAX_CONTROL_DATA_SIZE d < unat sz then Returns (X_LINK_ERROR, xm, [])
          else
            (case get_link_by_sw_device_id dev (sw_device_id h) of
               None \<Rightarrow> Returns (X_LINK_ERROR, xm, [])
             | Some link \<Rightarrow>
                 let t0 = [Create_event XLINK_WRITE_CONTROL_REQ chan sz 0] in
                 (case create (link_ident link) XLINK_WRITE_CONTROL_REQ (handle link) chan sz 0 of
                    None \<Rightarrow> Returns (X_LINK_ERROR, xm, t0)
                  | Some ev \<Rightarrow>
                      (case multiplexer_tx d e ev xm of
                         Returns (out, xm1) \<Rightarrow>
                           Returns (rc out, xm1,
                             t0 @ trace out @
                               (if event_queued out then [] else [Destroy_event]))
                       | Blocked \<Rightarrow> Blocked
                       | Null_deref \<Rightarrow> Null_deref)))
      | _ \<Rightarrow> Returns (X_LINK_ERROR, xm, []))"

text \<open>
  \<^verbatim>\<open>xlink_write_volatile\<close>: the payload is copied into a buffer of the platform
  allocator, which is given back when the event was not queued.
\<close>

definition xlink_write_volatile ::
  "xlink_defs \<Rightarrow> create_event \<Rightarrow> env \<Rightarrow> keembay_xlink_dev option \<Rightarrow> xlink_handle option \<Rightarrow>
   u16 \<Rightarrow> ptr \<Rightarrow> u32 \<Rightarrow> channels \<Rightarrow> (xlink_error \<times> channels \<times> effect list) run" where
  "xlink_write_volatile d create e xlink hdl chan message sz xm =
     (case (xlink, hdl) of
        (Some dev, Some h) \<Rightarrow>
          if XLINK_MAX_BUF_SIZE d < unat sz then Returns (X_LINK_ERROR, xm, [])
          else
            (case get_link_by_sw_device_id dev (sw_device_id h) of
               None \<Rightarrow> Returns (X_LINK_ERROR, xm, [])
             | Some link \<Rightarrow>
                 let t0 = [Create_event XLINK_WRITE_VOLATILE_REQ chan sz 0] in
                 (case create (link_ident link) XLINK_WRITE_VOLATILE_REQ (handle link) chan sz 0 of
                    None \<Rightarrow> Returns (X_LINK_ERROR, xm, t0)
                  | Some ev \<Rightarrow>
                      let region =
                            (if unat chan < XLINK_IPC_MAX_CHANNELS d \<and> interface ev = IPC_INTERFACE
                             then XLINK_CMA_MEMORY else XLINK_NORMAL_MEMORY);
                          t1 = t0 @ [Platform_allocate sz region]
                      in
                      (case allocated e of
                         None \<Rightarrow> Returns (X_LINK_ERROR, xm, t1 @ [Destroy_event])
                       | Some (buffer, pa) \<Rightarrow>
                           (case multiplexer_tx d e (ev\<lparr>ev_data := buffer, ev_paddr := pa\<rparr>) xm of
                              Returns (out, xm1) \<Rightarrow>
                                Returns (rc out, xm1,
                                  t1 @ trace out @
                                    (if event_queued out then []
                                     else [Platform_deallocate buffer pa sz region,
                                           Destroy_event]))
                            | Blocked \<Rightarrow> Blocked
                            | Null_deref \<Rightarrow> Null_deref))))
      | _ \<Rightarrow> Returns (X_LINK_ERROR, xm, []))"

subsection \<open>Sequences of queue operations\<close>

text \<open>
  The three operations that touch the rx queue of an open channel: the enqueue of a
  received packet (\<^verbatim>\<open>add_packet_to_channel\<close> on the rx queue, with the outcome of its
  allocation), the release of a packet (\<^verbatim>\<open>release_packet_from_channel\<close> on the rx queue, by
  address or, with \<open>NULL\<close>, the oldest), and the two draining loops of
  \<^verbatim>\<open>multiplexer_close_channel\<close>.
\<close>

datatype queue_op =
    Enqueue bool ptr u32 dma_addr
  | Release ptr
  | Drain

fun apply_op :: "queue_op \<Rightarrow> open_channel \<Rightarrow> open_channel" where
  "apply_op (Enqueue ok buffer sz pa) oc = snd (add_packet_to_channel ok oc RX_QUEUE buffer sz pa)"
| "apply_op (Release addr) oc = fst (snd (release_packet_from_channel oc RX_QUEUE addr))"
| "apply_op Drain oc = fst (drain_queue TX_QUEUE (fst (drain_queue RX_QUEUE oc [])) [])"

definition run_ops :: "queue_op list \<Rightarrow> open_channel \<Rightarrow> open_channel" where
  "run_ops ops oc = fold apply_op ops oc"

text \<open>The sum of the lengths of the packets in a queue.\<close>

definition queued_bytes :: "packet_queue \<Rightarrow> nat" where
  "queued_bytes q = sum_list (map (\<lambda>pkt. unat (pkt_length pkt)) (head q))"

subsection \<open>A configuration for the examples\<close>

definition sample_defs :: xlink_defs where
  "sample_defs =
     \<lparr>XLINK_PACKET_QUEUE_CAPACITY = 10000,
      NMB_CHANNELS = 4096,
      XLINK_IPC_MAX_CHANNELS = 1024,
      IP_CONTROL_CHANNEL = 0xA,
      VPU_CONTROL_CHANNEL = 0x400,
      XLINK_MAX_DATA_SIZE = 1073741824,
      XLINK_MAX_CONTROL_DATA_SIZE = 100,
      XLINK_MAX_BUF_SIZE = 128,
      get_interface_from_sw_device_id = (\<lambda>sw_device_id. PCIE_INTERFACE)\<rparr>"

text \<open>
  A request on channel \<open>0x401\<close>, which the table routes over PCIe and does not relay; an
  environment in which nothing fails and nobody is woken; an \<open>OPEN\<close> slot.
\<close>

definition sample_event :: "xlink_event_type \<Rightarrow> u32 \<Rightarrow> xlink_event" where
  "sample_event ty sz =
     \<lparr>link_id = 0, header_type = ty, header_chan = 0x401, header_size = sz,
      header_timeout = 0, handle_sw_device_id = 1, handle_dev_type = HOST_DEVICE,
      interface = PCIE_INTERFACE, ev_data = NULL, data_mode = RXN_TXN, ev_paddr = 0,
      calling_pid = NULL, ev_callback_origin = CHR ''K'', pdata_out = NULL, length_out = 0\<rparr>"

definition quiet_env :: env where
  "quiet_env =
     \<lparr>kzalloc_ok = True, wakes = [], allocated = Some (0x1000, 0x1000), read_rc = 0,
      read_size = 0, send_sig_rc = 0, passthrough = (\<lambda>ev c. (X_LINK_SUCCESS, c))\<rparr>"

definition open_slot :: "xlink_opmode \<Rightarrow> u32 \<Rightarrow> open_channel \<Rightarrow> channel" where
  "open_slot m sz oc =
     \<lparr>opchan = Some oc, mode = m, status = CHAN_OPEN, ipc_status = CHAN_CLOSED,
      chan_size = sz, timeout = 0\<rparr>"

text \<open>
  A channel of 50 bytes, transmit non-blocking, in three states: freshly opened, after a
  write of 0 bytes, and after the peer has then released 1 byte.
\<close>

definition small_slot :: channel where
  "small_slot = open_slot RXB_TXN 50 (new_open_channel sample_defs 0x401)"

definition small_slot_written :: channel where
  "small_slot_written =
     open_slot RXB_TXN 50 ((new_open_channel sample_defs 0x401)\<lparr>tx_packet_level := 1\<rparr>)"

definition small_slot_released :: channel where
  "small_slot_released =
     open_slot RXB_TXN 50 ((new_open_channel sample_defs 0x401)\<lparr>tx_fill_level := - 1\<rparr>)"

text \<open>
  A runtime state whose rx queue holds two packets and is full (capacity 2); a slot the
  peer has opened; a slot with a ready callback of kernel origin registered.
\<close>

definition full_oc :: open_channel where
  "full_oc =
     (new_open_channel sample_defs 0x401)
       \<lparr>rx_queue := \<lparr>count = 2, capacity = 2,
            head = [\<lparr>pkt_data = 0x1000, pkt_length = 100, pkt_paddr = 0x1000\<rparr>,
                    \<lparr>pkt_data = 0x2000, pkt_length = 200, pkt_paddr = 0x2000\<rparr>]\<rparr>,
         rx_fill_level := 300\<rparr>"

definition peer_slot :: channel where
  "peer_slot =
     \<lparr>opchan = Some (new_open_channel sample_defs 0x401), mode = RXB_TXB,
      status = CHAN_OPEN_PEER, ipc_status = CHAN_CLOSED, chan_size = 128, timeout = 0\<rparr>"

definition closed_slot :: channel where
  "closed_slot =
     \<lparr>opchan = None, mode = RXB_TXB, status = CHAN_CLOSED, ipc_status = CHAN_CLOSED,
      chan_size = 0, timeout = 0\<rparr>"

definition ready_oc :: open_channel where
  "ready_oc =
     (new_open_channel sample_defs 0x401)
       \<lparr>ready_callback := 0x5000, callback_origin := CHR ''K''\<rparr>"

text \<open>
  One link to device 1, an event constructor that fills the header from its arguments,
  and a channel table in which only channel \<open>0x401\<close> of link 0 is open.
\<close>

definition sample_handle :: xlink_handle where
  "sample_handle = \<lparr>sw_device_id = 1, dev_type = HOST_DEVICE\<rparr>"

definition sample_dev :: keembay_xlink_dev where
  "sample_dev = \<lparr>links = [\<lparr>link_ident = 0, handle = sample_handle\<rparr>]\<rparr>"

definition sample_create :: create_event where
  "sample_create lid ty h chan sz tmo =
     Some ((sample_event ty sz)
       \<lparr>link_id := lid, header_chan := chan, header_timeout := tmo,
        handle_sw_device_id := sw_device_id h, handle_dev_type := dev_type h\<rparr>)"

definition sample_table :: channels where
  "sample_table l chan =
     (if l = 0 \<and> chan = 0x401
      then open_slot RXN_TXN 4096 (new_open_channel sample_defs 0x401)
      else closed_slot)"

definition sample_ops :: "queue_op list" where
  "sample_ops = [Enqueue True 0x1000 100 0x1000, Enqueue True 0x2000 200 0x2000]"

definition two_gib_ops :: "queue_op list" where
  "two_gib_ops =
     [Enqueue True 0x1000 0x40000000 0x1000, Enqueue True 0x2000 0x40000000 0x2000]"

text \<open>
  The calls \<^verbatim>\<open>release_packet_from_channel\<close> makes for one packet, and the condition under
  which the receive path runs the ready callback.
\<close>

definition frees :: "packet \<Rightarrow> effect list" where
  "frees p =
     [Platform_deallocate (pkt_data p) (pkt_paddr p) (pkt_length p) XLINK_NORMAL_MEMORY,
      Kfree_packet]"

definition ready_callback_due :: "channel \<Rightarrow> open_channel \<Rightarrow> bool" where
  "ready_callback_due c oc =
     (status c = CHAN_OPEN \<and> chan_is_non_blocking_read c \<and> ready_callback oc \<noteq> NULL)"

text \<open>The slot with the size, timeout and mode of an open request stored.\<close>

definition requested :: "xlink_event \<Rightarrow> channel \<Rightarrow> channel" where
  "requested ev c =
     c\<lparr>chan_size := header_size ev, timeout := header_timeout ev, mode := data_mode ev\<rparr>"

text \<open>The runtime state of channel 0x401 with the over-watermark flag set.\<close>

definition flagged_oc :: "u32 \<Rightarrow> open_channel" where
  "flagged_oc fill =
     (new_open_channel sample_defs 0x401)\<lparr>tx_fill_level := fill, tx_up_limit := 1\<rparr>"

text \<open>
  A 4096-byte blocking channel with a wait bound of 1000 ms, and an environment in which
  the first wait ends with a release of 3000 bytes in one packet.
\<close>

definition scenario_slot :: "open_channel \<Rightarrow> channel" where
  "scenario_slot oc = (open_slot RXB_TXB 4096 oc)\<lparr>timeout := 1000\<rparr>"

definition scenario_env :: env where
  "scenario_env =
     quiet_env\<lparr>wakes :=
       [\<lparr>result = Completed,
         during = (\<lambda>oc. oc\<lparr>tx_fill_level := tx_fill_level oc - 3000,
                              tx_packet_level := tx_packet_level oc - 1\<rparr>)\<rparr>,
        \<lparr>result = Completed, during = (\<lambda>oc. oc)\<rparr>]\<rparr>"

text \<open>
  The invariant behind the fill level: as 32-bit values, \<^verbatim>\<open>rx_fill_level\<close> is the sum of the
  lengths in the rx queue, and the tx queue is empty (nothing ever enqueues there, so the
  tx loop of the close path, which would also charge \<^verbatim>\<open>rx_fill_level\<close>, has nothing to do).
\<close>

definition fill_inv :: "open_channel \<Rightarrow> bool" where
  "fill_inv oc =
     (rx_fill_level oc = of_nat (queued_bytes (rx_queue oc)) \<and> head (tx_queue oc) = [])"

section \<open>Properties\<close>

subsection \<open>Fill level of the rx queue\<close>

lemma fill_inv_new: "fill_inv (new_open_channel d chan)"
  by (simp add: fill_inv_def new_open_channel_def queued_bytes_def)

lemma fill_inv_add:
  "fill_inv oc \<Longrightarrow> fill_inv (snd (add_packet_to_channel ok oc RX_QUEUE buffer sz pa))"
  by (simp add: fill_inv_def add_packet_to_channel_def queued_bytes_def Let_def)

lemma find_packet_mem: "find_packet addr q = Some p \<Longrightarrow> p \<in> set (head q)"
  by (auto simp: find_packet_def get_packet_from_channel_def find_Some_iff
      split: if_splits list.splits)

lemma queued_bytes_remove1:
  "p \<in> set (head q) \<Longrightarrow>
   queued_bytes q =
     unat (pkt_length p) + queued_bytes (q\<lparr>head := remove1 p (head q), count := n\<rparr>)"
  by (simp add: queued_bytes_def sum_list_map_remove1)

lemma release_found:
  "find_packet addr (rx_queue oc) = Some p \<Longrightarrow>
   release_packet_from_channel oc RX_QUEUE addr =
     (X_LINK_SUCCESS,
      oc\<lparr>rx_queue := (rx_queue oc)\<lparr>head := remove1 p (head (rx_queue oc)),
                                        count := count (rx_queue oc) - 1\<rparr>,
         rx_fill_level := rx_fill_level oc - pkt_length p\<rparr>,
      Some (pkt_length p),
      [Platform_deallocate (pkt_data p) (pkt_paddr p) (pkt_length p) XLINK_NORMAL_MEMORY,
       Kfree_packet])"
  by (simp add: release_packet_from_channel_def Let_def)

lemma fill_inv_release:
  "fill_inv oc \<Longrightarrow> fill_inv (fst (snd (release_packet_from_channel oc RX_QUEUE addr)))"
  by (auto simp: fill_inv_def release_packet_from_channel_def Let_def
      queued_bytes_remove1 [OF find_packet_mem, of _ _ _ "count (rx_queue oc) - 1"]
      split: option.splits)

lemma fill_inv_drain_rx: "fill_inv oc \<Longrightarrow> fill_inv (fst (drain_queue RX_QUEUE oc t))"
proof (induction "RX_QUEUE" oc t rule: drain_queue.induct)
  case (1 oc t)
  show ?case
  proof (cases "head (rx_queue oc) = []")
    case True
    with 1 show ?thesis by (simp add: drain_queue.simps)
  next
    case False
    obtain r oc' sz t' where
      rel: "release_packet_from_channel oc RX_QUEUE NULL = (r, oc', sz, t')"
      by (cases "release_packet_from_channel oc RX_QUEUE NULL") auto
    have "fill_inv oc'"
      using fill_inv_release [OF "1.prems", of NULL] rel by simp
    with 1 False rel show ?thesis
      by (simp add: drain_queue.simps [of RX_QUEUE oc])
  qed
qed

lemma drain_tx_empty: "head (tx_queue oc) = [] \<Longrightarrow> drain_queue TX_QUEUE oc t = (oc, t)"
  by (simp add: drain_queue.simps)

lemma fill_inv_apply:
  assumes "fill_inv oc"
  shows "fill_inv (apply_op op oc)"
proof (cases op)
  case (Enqueue ok buffer sz pa)
  with assms show ?thesis by (simp add: fill_inv_add)
next
  case (Release addr)
  with assms show ?thesis by (simp add: fill_inv_release)
next
  case Drain
  have rx: "fill_inv (fst (drain_queue RX_QUEUE oc []))"
    by (rule fill_inv_drain_rx [OF assms])
  then have "head (tx_queue (fst (drain_queue RX_QUEUE oc []))) = []"
    by (simp add: fill_inv_def)
  with Drain rx show ?thesis by (simp add: drain_tx_empty)
qed

lemma fill_inv_run: "fill_inv oc \<Longrightarrow> fill_inv (run_ops ops oc)"
  unfolding run_ops_def by (induction ops arbitrary: oc) (auto simp: fill_inv_apply)

text \<open>
  The operations are what the entry points do to the runtime state: a data or control
  write completion that got its buffer enqueues, a release request releases.
\<close>

lemma rx_write_req_enqueues:
  assumes "opchan c = Some oc" and "allocated e = Some (buffer, pa)"
    and "read_rc e = 0" and "read_size e = unat (header_size ev)"
    and "rx_write_req e ev c = Returns out"
  shows "opchan (slot out) =
           Some (apply_op (Enqueue (kzalloc_ok e) buffer (header_size ev) pa) oc)"
proof -
  obtain r oc1 where
    add: "add_packet_to_channel (kzalloc_ok e) oc RX_QUEUE buffer (header_size ev) pa = (r, oc1)"
    by (cases "add_packet_to_channel (kzalloc_ok e) oc RX_QUEUE buffer (header_size ev) pa")
  obtain r2 t3 where
    cb: "run_callback (send_sig_rc e) oc1 (ready_callback oc1) (ready_calling_pid oc1) = (r2, t3)"
    by (cases "run_callback (send_sig_rc e) oc1 (ready_callback oc1) (ready_calling_pid oc1)")
  from assms add cb show ?thesis
    by (auto simp: rx_write_req_def Let_def split: if_splits)
qed

lemma rx_write_control_req_enqueues:
  assumes "opchan c = Some oc" and "allocated e = Some (buffer, pa)"
    and "rx_write_control_req e ev c = Returns out"
  shows "opchan (slot out) =
           Some (apply_op (Enqueue (kzalloc_ok e) buffer (header_size ev) pa) oc)"
proof -
  obtain r oc1 where
    add: "add_packet_to_channel (kzalloc_ok e) oc RX_QUEUE buffer (header_size ev) pa = (r, oc1)"
    by (cases "add_packet_to_channel (kzalloc_ok e) oc RX_QUEUE buffer (header_size ev) pa")
  from assms add show ?thesis
    by (auto simp: rx_write_control_req_def Let_def split: if_splits)
qed

lemma tx_release_req_releases:
  assumes "opchan c = Some oc" and "tx_release_req ev c = Returns out"
  shows "opchan (slot out) = Some (apply_op (Release (ev_data ev)) oc)"
proof -
  obtain r oc1 sz t where
    rel: "release_packet_from_channel oc RX_QUEUE (ev_data ev) = (r, oc1, sz, t)"
    by (cases "release_packet_from_channel oc RX_QUEUE (ev_data ev)") auto
  from assms rel show ?thesis
    by (auto simp: tx_release_req_def split: if_splits)
qed

lemma sint_of_nat_small: "n < 2147483648 \<Longrightarrow> sint (of_nat n :: 32 word) = int n"
  by (simp add: signed_of_nat signed_take_bit_int_eq_self)

lemma sample_ops_state:
  "run_ops sample_ops (new_open_channel sample_defs 0x401) =
     (new_open_channel sample_defs 0x401)
       \<lparr>rx_queue := \<lparr>count = 2, capacity = 10000,
            head = [\<lparr>pkt_data = 0x1000, pkt_length = 100, pkt_paddr = 0x1000\<rparr>,
                    \<lparr>pkt_data = 0x2000, pkt_length = 200, pkt_paddr = 0x2000\<rparr>]\<rparr>,
         rx_fill_level := 300\<rparr>"
  by (simp add: sample_ops_def run_ops_def add_packet_to_channel_def new_open_channel_def
      sample_defs_def Let_def)

lemma two_gib_state:
  "run_ops two_gib_ops (new_open_channel sample_defs 0x401) =
     (new_open_channel sample_defs 0x401)
       \<lparr>rx_queue := \<lparr>count = 2, capacity = 10000,
            head = [\<lparr>pkt_data = 0x1000, pkt_length = 0x40000000, pkt_paddr = 0x1000\<rparr>,
                    \<lparr>pkt_data = 0x2000, pkt_length = 0x40000000, pkt_paddr = 0x2000\<rparr>]\<rparr>,
         rx_fill_level := 0x80000000\<rparr>"
  by (simp add: two_gib_ops_def run_ops_def add_packet_to_channel_def new_open_channel_def
      sample_defs_def Let_def)

text \<open>
  Claim C1, as amended. After every sequence of enqueues, releases and close-drains on a
  freshly opened channel, \<^verbatim>\<open>rx_fill_level\<close> equals the sum of the lengths of the packets in
  the rx queue modulo \<open>2^32\<close>. As long as that sum is below \<open>2^31\<close> the signed counter equals
  the sum exactly, and releasing a packet that is found takes exactly its length off the
  queue and off the counter, which stays at or above zero.
\<close>

theorem rx_fill_level_tracks_queue:
  "let oc = run_ops ops (new_open_channel d chan) in
     unat (rx_fill_level oc) = queued_bytes (rx_queue oc) mod 2 ^ 32 \<and>
     (queued_bytes (rx_queue oc) < 2 ^ 31 \<longrightarrow>
        sint (rx_fill_level oc) = int (queued_bytes (rx_queue oc)) \<and>
        (\<forall>addr p. find_packet addr (rx_queue oc) = Some p \<longrightarrow>
           (let oc' = apply_op (Release addr) oc in
              queued_bytes (rx_queue oc') + unat (pkt_length p) = queued_bytes (rx_queue oc) \<and>
              sint (rx_fill_level oc') = sint (rx_fill_level oc) - int (unat (pkt_length p)) \<and>
              0 \<le> sint (rx_fill_level oc'))))"
proof -
  define oc where "oc = run_ops ops (new_open_channel d chan)"
  have inv: "fill_inv oc"
    unfolding oc_def by (rule fill_inv_run [OF fill_inv_new])
  then have eq: "rx_fill_level oc = of_nat (queued_bytes (rx_queue oc))"
    by (simp add: fill_inv_def)
  have a: "unat (rx_fill_level oc) = queued_bytes (rx_queue oc) mod 2 ^ 32"
    by (simp add: eq unat_of_nat)
  have b: "sint (rx_fill_level oc) = int (queued_bytes (rx_queue oc))"
    if "queued_bytes (rx_queue oc) < 2 ^ 31"
    using that by (simp add: eq sint_of_nat_small)
  have c: "queued_bytes (rx_queue (apply_op (Release addr) oc)) + unat (pkt_length p) =
             queued_bytes (rx_queue oc) \<and>
           sint (rx_fill_level (apply_op (Release addr) oc)) =
             sint (rx_fill_level oc) - int (unat (pkt_length p)) \<and>
           0 \<le> sint (rx_fill_level (apply_op (Release addr) oc))"
    if small: "queued_bytes (rx_queue oc) < 2 ^ 31"
      and found: "find_packet addr (rx_queue oc) = Some p" for addr p
  proof -
    let ?oc' = "apply_op (Release addr) oc"
    have inv': "fill_inv ?oc'" by (rule fill_inv_apply [OF inv])
    have q: "queued_bytes (rx_queue oc) = unat (pkt_length p) + queued_bytes (rx_queue ?oc')"
      using queued_bytes_remove1 [OF find_packet_mem [OF found], of "count (rx_queue oc) - 1"]
      by (simp add: release_found [OF found])
    then have small': "queued_bytes (rx_queue ?oc') < 2 ^ 31" using small by simp
    have "sint (rx_fill_level ?oc') = int (queued_bytes (rx_queue ?oc'))"
      using inv' small' by (simp add: fill_inv_def sint_of_nat_small)
    with q b [OF small] show ?thesis by simp
  qed
  show ?thesis
    unfolding Let_def oc_def [symmetric] using a b c by blast
qed

text \<open>
  The amended claim at work: two packets of 100 and 200 bytes are queued, the counter
  reads 300, and releasing the packet at \<open>0x1000\<close> brings it to 200.
\<close>

theorem rx_fill_level_tracks_queue_witness:
  "queued_bytes (rx_queue (run_ops sample_ops (new_open_channel sample_defs 0x401))) = 300 \<and>
   sint (rx_fill_level (run_ops sample_ops (new_open_channel sample_defs 0x401))) = 300 \<and>
   find_packet 0x1000 (rx_queue (run_ops sample_ops (new_open_channel sample_defs 0x401))) =
     Some \<lparr>pkt_data = 0x1000, pkt_length = 100, pkt_paddr = 0x1000\<rparr> \<and>
   sint (rx_fill_level
     (apply_op (Release 0x1000) (run_ops sample_ops (new_open_channel sample_defs 0x401)))) = 200"
proof -
  let ?oc = "run_ops sample_ops (new_open_channel sample_defs 0x401)"
  have q: "queued_bytes (rx_queue ?oc) = 300"
    by (simp add: sample_ops_state queued_bytes_def)
  have f: "find_packet 0x1000 (rx_queue ?oc) =
             Some \<lparr>pkt_data = 0x1000, pkt_length = 100, pkt_paddr = 0x1000\<rparr>"
    by (simp add: sample_ops_state find_packet_def NULL_def)
  from rx_fill_level_tracks_queue [of sample_ops sample_defs "0x401"] q f
  show ?thesis by (simp add: Let_def)
qed

text \<open>
  Claim C1 as stated fails once the queued lengths add up to \<open>2^31\<close>: with two packets
  of 1 GiB in the rx queue the signed counter reads \<open>-2^31\<close> while the sum is \<open>2^31\<close>.
\<close>

theorem rx_fill_level_overflow_counterexample:
  "sint (rx_fill_level (run_ops two_gib_ops (new_open_channel sample_defs 0x401))) =
     - 2147483648 \<and>
   queued_bytes (rx_queue (run_ops two_gib_ops (new_open_channel sample_defs 0x401))) =
     2147483648"
  by (simp add: two_gib_state queued_bytes_def)

subsection \<open>Admission control\<close>

lemma unat_u32_bound: "unat (w :: u32) < 4294967296"
proof -
  have "unat w < 2 ^ LENGTH(32)" by (rule unsigned_less)
  then show ?thesis by simp
qed

lemma unat_lower_threshold:
  "unat (lower_threshold c) = (unat (chan_size c) div 100) * 80"
proof -
  have b: "(unat (chan_size c) div 100) * 80 < 2 ^ 32"
    using unat_u32_bound [of "chan_size c"] by simp
  have "unat (chan_size c div 100) = unat (chan_size c) div 100"
    by (simp add: unat_div)
  then show ?thesis using b
    by (simp add: lower_threshold_def THR_LWR_def unat_word_ariths)
qed

lemma unat_upper_threshold:
  "unat (upper_threshold c) = (unat (chan_size c) div 100) * 85"
proof -
  have b: "(unat (chan_size c) div 100) * 85 < 2 ^ 32"
    using unat_u32_bound [of "chan_size c"] by simp
  have "unat (chan_size c div 100) = unat (chan_size c) div 100"
    by (simp add: unat_div)
  then show ?thesis using b
    by (simp add: upper_threshold_def THR_UPR_def unat_word_ariths)
qed

text \<open>
  The check in full, below the packet cap. With the flag set a request is admitted exactly
  when its fill level is below \<^verbatim>\<open>(chan_size / 100) * 80\<close>; with the flag clear it is refused
  exactly when its fill level is above \<^verbatim>\<open>(chan_size / 100) * 85\<close>, and the refusal sets the
  flag.
\<close>

lemma admission_with_flag_set:
  assumes "tx_up_limit oc = 1" and "sint (tx_packet_level oc) < packet_limit d"
  shows "is_enough_space_in_channel d c oc sz =
           (if unat (tx_fill_level oc + sz) < (unat (chan_size c) div 100) * 80
            then (True, oc\<lparr>tx_up_limit := 0\<rparr>) else (False, oc))"
  using assms
  by (simp add: is_enough_space_in_channel_def word_less_nat_alt unat_lower_threshold)

lemma admission_with_flag_clear:
  assumes "tx_up_limit oc = 0" and "sint (tx_packet_level oc) < packet_limit d"
  shows "is_enough_space_in_channel d c oc sz =
           (if (unat (chan_size c) div 100) * 85 < unat (tx_fill_level oc + sz)
            then (False, oc\<lparr>tx_up_limit := 1\<rparr>) else (True, oc))"
  using assms
  by (simp add: is_enough_space_in_channel_def word_less_nat_alt unat_upper_threshold)

text \<open>
  Claim C2, as amended. The fill level of a request is what the check computes,
  \<^verbatim>\<open>tx_fill_level + size\<close> in 32 bits, and the bounds are \<^verbatim>\<open>(chan_size / 100) * 80\<close> and
  \<^verbatim>\<open>(chan_size / 100) * 85\<close> in integer arithmetic.

  \<^item> With the over-watermark flag set, a request is admitted, and the flag cleared, exactly
    when its fill level is strictly below \<^verbatim>\<open>(chan_size / 100) * 80\<close> and the in-flight packet
    count is below the packet cap; otherwise it is refused and the flag stays set.
  \<^item> So with the flag set no fill level at or above 80% of the configured capacity, and
    none between 80% and 85%, is admitted.
  \<^item> With the flag clear and the packet count below the cap, a request is refused, and the
    flag set, exactly when its fill level is strictly above \<^verbatim>\<open>(chan_size / 100) * 85\<close>.
\<close>

theorem hysteresis_admission:
  "(tx_up_limit oc = 1 \<longrightarrow>
      is_enough_space_in_channel d c oc sz =
        (if sint (tx_packet_level oc) < packet_limit d \<and>
            unat (tx_fill_level oc + sz) < (unat (chan_size c) div 100) * 80
         then (True, oc\<lparr>tx_up_limit := 0\<rparr>) else (False, oc))) \<and>
   (tx_up_limit oc = 1 \<and> 80 * unat (chan_size c) \<le> 100 * unat (tx_fill_level oc + sz) \<longrightarrow>
      is_enough_space_in_channel d c oc sz = (False, oc)) \<and>
   (tx_up_limit oc = 0 \<and> sint (tx_packet_level oc) < packet_limit d \<longrightarrow>
      is_enough_space_in_channel d c oc sz =
        (if (unat (chan_size c) div 100) * 85 < unat (tx_fill_level oc + sz)
         then (False, oc\<lparr>tx_up_limit := 1\<rparr>) else (True, oc)))"
proof (intro conjI impI)
  assume f: "tx_up_limit oc = 1"
  show "is_enough_space_in_channel d c oc sz =
        (if sint (tx_packet_level oc) < packet_limit d \<and>
            unat (tx_fill_level oc + sz) < (unat (chan_size c) div 100) * 80
         then (True, oc\<lparr>tx_up_limit := 0\<rparr>) else (False, oc))"
  proof (cases "sint (tx_packet_level oc) < packet_limit d")
    case True
    then show ?thesis using admission_with_flag_set [OF f True, of c sz] by simp
  next
    case False
    then show ?thesis by (simp add: is_enough_space_in_channel_def)
  qed
next
  assume "tx_up_limit oc = 1 \<and> 80 * unat (chan_size c) \<le> 100 * unat (tx_fill_level oc + sz)"
  then show "is_enough_space_in_channel d c oc sz = (False, oc)"
    by (auto simp: is_enough_space_in_channel_def word_less_nat_alt unat_lower_threshold)
next
  assume "tx_up_limit oc = 0 \<and> sint (tx_packet_level oc) < packet_limit d"
  then show "is_enough_space_in_channel d c oc sz =
        (if (unat (chan_size c) div 100) * 85 < unat (tx_fill_level oc + sz)
         then (False, oc\<lparr>tx_up_limit := 1\<rparr>) else (True, oc))"
    using admission_with_flag_clear [of oc d c sz] by simp
qed

text \<open>
  On a 4096-byte channel the bounds are 3200 and 3400. With the flag set a fill level of
  3300 is refused and one of 1000 is admitted and clears the flag; with the flag clear a
  fill level of 4000 is refused and sets the flag.
\<close>

theorem hysteresis_admission_witness:
  "is_enough_space_in_channel sample_defs (open_slot RXB_TXB 4096 (flagged_oc 3000))
     (flagged_oc 3000) 300 = (False, flagged_oc 3000) \<and>
   is_enough_space_in_channel sample_defs (open_slot RXB_TXB 4096 (flagged_oc 0))
     (flagged_oc 0) 1000 = (True, (flagged_oc 0)\<lparr>tx_up_limit := 0\<rparr>) \<and>
   is_enough_space_in_channel sample_defs
     (open_slot RXB_TXB 4096 ((flagged_oc 3000)\<lparr>tx_up_limit := 0\<rparr>))
     ((flagged_oc 3000)\<lparr>tx_up_limit := 0\<rparr>) 1000 = (False, flagged_oc 3000)"
proof -
  have p: "packet_limit sample_defs = 8500"
    by (simp add: packet_limit_def sample_defs_def THR_UPR_def)
  have s: "chan_size (open_slot RXB_TXB 4096 oc) = 4096" for oc
    by (simp add: open_slot_def)
  show ?thesis
    using hysteresis_admission [of "flagged_oc 3000" sample_defs
        "open_slot RXB_TXB 4096 (flagged_oc 3000)" 300]
      hysteresis_admission [of "flagged_oc 0" sample_defs
        "open_slot RXB_TXB 4096 (flagged_oc 0)" 1000]
      hysteresis_admission [of "(flagged_oc 3000)\<lparr>tx_up_limit := 0\<rparr>" sample_defs
        "open_slot RXB_TXB 4096 ((flagged_oc 3000)\<lparr>tx_up_limit := 0\<rparr>)" 1000]
    by (simp add: p s flagged_oc_def new_open_channel_def)
qed

text \<open>
  The bound is not 80% of the capacity. On the 4096-byte channel with the flag set, no
  packet in flight and 3000 bytes of fill, a request of 250 bytes has a fill level of 3250,
  strictly below 80% of 4096 (3276.8), and is refused: the bound is
  \<^verbatim>\<open>(4096 / 100) * 80 = 3200\<close>.
\<close>

theorem hysteresis_below_80_percent_counterexample:
  "tx_up_limit (flagged_oc 3000) = 1 \<and>
   sint (tx_packet_level (flagged_oc 3000)) < packet_limit sample_defs \<and>
   100 * unat (tx_fill_level (flagged_oc 3000) + 250) <
     80 * unat (chan_size (open_slot RXB_TXB 4096 (flagged_oc 3000))) \<and>
   is_enough_space_in_channel sample_defs (open_slot RXB_TXB 4096 (flagged_oc 3000))
     (flagged_oc 3000) 250 = (False, flagged_oc 3000)"
  by (simp add: flagged_oc_def is_enough_space_in_channel_def open_slot_def sample_defs_def
      packet_limit_def new_open_channel_def upper_threshold_def lower_threshold_def
      THR_UPR_def THR_LWR_def)

text \<open>
  On a channel of fewer than 100 bytes the lower bound is 0: once the flag is set no
  request is admitted again, whatever the fill level.
\<close>

lemma small_channel_never_readmits:
  assumes "tx_up_limit oc = 1" and "unat (chan_size c) < 100"
  shows "is_enough_space_in_channel d c oc sz = (False, oc)"
  using assms
  by (simp add: is_enough_space_in_channel_def word_less_nat_alt unat_lower_threshold)

lemma passthru_0x401: "is_passthru_channel sample_defs 0x401 = Some False"
  by (simp add: is_passthru_channel_def get_channel_type_def default_channel_table_def
      sample_defs_def)

text \<open>
  A blocking writer on the 4096-byte channel: with 3000 bytes in flight a write of 1000
  bytes is refused and sleeps on the packet-released completion; the release of the 3000
  bytes during the sleep lets the second check admit it, and the write goes downstream.
\<close>

lemma scenario_blocked_writer_released:
  "tx_write_req sample_defs scenario_env (sample_event XLINK_WRITE_REQ 1000)
     (scenario_slot ((new_open_channel sample_defs 0x401)
        \<lparr>tx_fill_level := 3000, tx_packet_level := 1\<rparr>)) =
   Returns \<lparr>rc = X_LINK_SUCCESS,
     slot = scenario_slot ((new_open_channel sample_defs 0x401)
        \<lparr>tx_fill_level := 1000, tx_packet_level := 1\<rparr>),
     event = (sample_event XLINK_WRITE_REQ 1000)\<lparr>header_timeout := 1000\<rparr>,
     event_queued = True,
     trace = [Wait PKT_RELEASED (Some 1000),
              Dispatcher_event_add EVENT_TX XLINK_WRITE_REQ,
              Wait PKT_CONSUMED (Some 1000)]\<rparr>"
  by (simp add: tx_write_req_def scenario_slot_def scenario_env_def open_slot_def
      sample_event_def quiet_env_def Let_def passthru_0x401
      wait_for_space.simps is_enough_space_in_channel_def packet_limit_def
      upper_threshold_def lower_threshold_def THR_UPR_def THR_LWR_def chan_wait_def
      wake_rc_def sleep_def new_open_channel_def)
    (simp add: sample_defs_def)

lemma packet_limit_le: "packet_limit d \<le> int (XLINK_PACKET_QUEUE_CAPACITY d)"
proof -
  have "(XLINK_PACKET_QUEUE_CAPACITY d div 100) * 85 \<le> XLINK_PACKET_QUEUE_CAPACITY d"
    by simp
  then show ?thesis by (simp add: packet_limit_def THR_UPR_def)
qed

lemma nonblocking_no_wait:
  assumes "chan_is_non_blocking_write c"
    and "is_enough_space_in_channel d c oc sz = (False, oc')"
  shows "wait_for_space d c sz oc ws t = Returns (X_LINK_CHAN_FULL, oc', ws, t)"
  using assms
  by (auto simp: wait_for_space.simps [of d c sz oc] chan_is_non_blocking_write_def)

text \<open>
  Claim C5. With the in-flight packet count at the queue capacity the admission check
  refuses the request whatever the mode, and on an open channel whose mode marks transmit
  as non-blocking the write request returns \<^verbatim>\<open>X_LINK_CHAN_FULL\<close> with an empty trace: no
  wait, no event queued, the runtime state untouched.
\<close>

theorem nonblocking_write_at_packet_cap:
  assumes "opchan c = Some oc" and "status c = CHAN_OPEN"
    and "sint (tx_packet_level oc) = int (XLINK_PACKET_QUEUE_CAPACITY d)"
  shows "is_enough_space_in_channel d c oc (header_size ev) = (False, oc) \<and>
         (chan_is_non_blocking_write c \<longrightarrow>
            tx_write_req d e ev c =
              Returns \<lparr>rc = X_LINK_CHAN_FULL, slot = c,
                       event = ev\<lparr>header_timeout := timeout c\<rparr>,
                       event_queued = False, trace = []\<rparr>)"
proof -
  have full: "is_enough_space_in_channel d c oc sz = (False, oc)" for sz
    using assms(3) packet_limit_le [of d] by (simp add: is_enough_space_in_channel_def)
  have "tx_write_req d e ev c =
          Returns \<lparr>rc = X_LINK_CHAN_FULL, slot = c, event = ev\<lparr>header_timeout := timeout c\<rparr>,
                   event_queued = False, trace = []\<rparr>"
    if nb: "chan_is_non_blocking_write c"
    using assms(1,2) nonblocking_no_wait [OF nb full]
    by (simp add: tx_write_req_def Let_def)
  with full show ?thesis by simp
qed

text \<open>A write of 64 bytes on a channel with 10000 packets in flight.\<close>

theorem nonblocking_write_at_packet_cap_witness:
  "tx_write_req sample_defs quiet_env (sample_event XLINK_WRITE_REQ 64)
     (open_slot RXB_TXN 4096 ((new_open_channel sample_defs 0x401)\<lparr>tx_packet_level := 10000\<rparr>)) =
   Returns \<lparr>rc = X_LINK_CHAN_FULL,
     slot = open_slot RXB_TXN 4096 ((new_open_channel sample_defs 0x401)\<lparr>tx_packet_level := 10000\<rparr>),
     event = (sample_event XLINK_WRITE_REQ 64)\<lparr>header_timeout := 0\<rparr>,
     event_queued = False, trace = []\<rparr>"
proof -
  let ?oc = "(new_open_channel sample_defs 0x401)\<lparr>tx_packet_level := 10000\<rparr>"
  let ?c = "open_slot RXB_TXN 4096 ?oc"
  have h1: "opchan ?c = Some ?oc" and h2: "status ?c = CHAN_OPEN"
    and h4: "chan_is_non_blocking_write ?c"
    by (simp_all add: open_slot_def chan_is_non_blocking_write_def)
  have h3: "sint (tx_packet_level ?oc) = int (XLINK_PACKET_QUEUE_CAPACITY sample_defs)"
    by (simp add: sample_defs_def)
  from nonblocking_write_at_packet_cap [OF h1 h2 h3, of "sample_event XLINK_WRITE_REQ 64" quiet_env] h4
  show ?thesis by (simp add: open_slot_def)
qed

text \<open>
  With the same packet count a channel whose mode marks transmit as blocking does not
  return \<^verbatim>\<open>X_LINK_CHAN_FULL\<close>: the writer sleeps on \<^verbatim>\<open>pkt_released\<close>.
\<close>

lemma blocking_write_at_packet_cap_waits:
  assumes "opchan c = Some oc" and "status c = CHAN_OPEN"
    and "sint (tx_packet_level oc) = int (XLINK_PACKET_QUEUE_CAPACITY d)"
    and "mode c = RXN_TXB \<or> mode c = RXB_TXB" and "wakes e = []"
  shows "tx_write_req d e ev c = Blocked"
proof -
  have "is_enough_space_in_channel d c oc (header_size ev) = (False, oc)"
    using assms(3) packet_limit_le [of d] by (simp add: is_enough_space_in_channel_def)
  then have "wait_for_space d c (header_size ev) oc [] [] = Blocked"
    using assms(4) by (simp add: wait_for_space.simps [of d c "header_size ev" oc])
  with assms(1,2,5) show ?thesis by (simp add: tx_write_req_def Let_def)
qed

lemma small_thresholds:
  assumes "unat (chan_size c) < 100"
  shows "upper_threshold c = 0" and "lower_threshold c = 0"
proof -
  from assms have "unat (upper_threshold c) = 0" "unat (lower_threshold c) = 0"
    by (simp_all add: unat_upper_threshold unat_lower_threshold)
  then show "upper_threshold c = 0" and "lower_threshold c = 0"
    by (simp_all add: unat_eq_0)
qed

lemma sint_nonneg_unat:
  assumes "0 \<le> sint (w :: u32)"
  shows "uint w = sint w"
proof -
  have "sint w < 2 ^ 31" using sint_lt [of w] by simp
  then have "take_bit 32 (sint w) = sint w"
    using assms by (simp add: take_bit_int_eq_self)
  then show ?thesis
    using uint_sint [of w] by simp
qed

lemma no_wrap_nonzero:
  assumes "0 \<le> sint (fill :: u32)" and "sz \<noteq> 0" and "sint fill + int (unat sz) < 2 ^ 32"
  shows "fill + sz \<noteq> 0"
proof
  assume z: "fill + sz = 0"
  have "int (unat fill + unat sz) < 4294967296"
    using assms(3) sint_nonneg_unat [OF assms(1)] by simp
  then have "unat fill + unat sz < 4294967296" by linarith
  then have "unat (fill + sz) = unat fill + unat sz"
    using unat_add_lem [of fill sz] by simp
  moreover have "0 < unat sz" using assms(2) by (simp add: unat_gt_0)
  ultimately show False using z by simp
qed

text \<open>
  Claim C10, as amended. On a channel whose configured capacity is below 100 bytes both
  thresholds are 0. With the flag a proper latch (0 or 1), every request whose 32-bit sum
  \<^verbatim>\<open>tx_fill_level + size\<close> is not zero is refused by the admission check; with a
  non-negative fill level and a sum below \<open>2^32\<close> that is every request of nonzero size.
  A non-blocking write of that kind on an open channel returns \<^verbatim>\<open>X_LINK_CHAN_FULL\<close>
  without waiting.
\<close>

theorem small_channel_thresholds:
  assumes "unat (chan_size c) < 100"
  shows "upper_threshold c = 0 \<and> lower_threshold c = 0 \<and>
         (\<forall>oc sz. (tx_up_limit oc = 0 \<or> tx_up_limit oc = 1) \<longrightarrow> tx_fill_level oc + sz \<noteq> 0 \<longrightarrow>
              \<not> fst (is_enough_space_in_channel d c oc sz)) \<and>
         (\<forall>oc sz. 0 \<le> sint (tx_fill_level oc) \<longrightarrow> sz \<noteq> 0 \<longrightarrow>
              sint (tx_fill_level oc) + int (unat sz) < 2 ^ 32 \<longrightarrow> tx_fill_level oc + sz \<noteq> 0) \<and>
         (\<forall>oc e ev. opchan c = Some oc \<longrightarrow> status c = CHAN_OPEN \<longrightarrow>
              chan_is_non_blocking_write c \<longrightarrow> (tx_up_limit oc = 0 \<or> tx_up_limit oc = 1) \<longrightarrow>
              tx_fill_level oc + header_size ev \<noteq> 0 \<longrightarrow>
              (\<exists>out. tx_write_req d e ev c = Returns out \<and> rc out = X_LINK_CHAN_FULL \<and>
                 event_queued out = False \<and> trace out = []))"
proof -
  note thr = small_thresholds [OF assms]
  have refuse: "\<not> fst (is_enough_space_in_channel d c oc sz)"
    if "tx_up_limit oc = 0 \<or> tx_up_limit oc = 1" and "tx_fill_level oc + sz \<noteq> 0" for oc sz
    using that thr by (auto simp: is_enough_space_in_channel_def word_greater_zero_iff)
  have full: "\<exists>out. tx_write_req d e ev c = Returns out \<and> rc out = X_LINK_CHAN_FULL \<and>
                 event_queued out = False \<and> trace out = []"
    if oc: "opchan c = Some oc" and st: "status c = CHAN_OPEN"
      and nb: "chan_is_non_blocking_write c"
      and flag: "tx_up_limit oc = 0 \<or> tx_up_limit oc = 1"
      and nz: "tx_fill_level oc + header_size ev \<noteq> 0" for oc e ev
  proof -
    obtain oc' where
      "is_enough_space_in_channel d c oc (header_size ev) = (False, oc')"
      using refuse [OF flag nz]
      by (cases "is_enough_space_in_channel d c oc (header_size ev)") auto
    from nonblocking_no_wait [OF nb this] oc st show ?thesis
      by (simp add: tx_write_req_def Let_def)
  qed
  from thr refuse full no_wrap_nonzero show ?thesis by blast
qed

text \<open>A write of 1 byte on the freshly opened 50-byte channel.\<close>

theorem small_channel_thresholds_witness:
  "upper_threshold small_slot = 0 \<and> lower_threshold small_slot = 0 \<and>
   (\<exists>out. tx_write_req sample_defs quiet_env (sample_event XLINK_WRITE_REQ 1) small_slot =
            Returns out \<and> rc out = X_LINK_CHAN_FULL \<and> event_queued out = False \<and>
            trace out = [])"
proof -
  let ?oc = "new_open_channel sample_defs 0x401"
  have h: "unat (chan_size small_slot) < 100"
    by (simp add: small_slot_def open_slot_def)
  have f: "opchan small_slot = Some ?oc" "status small_slot = CHAN_OPEN"
    "chan_is_non_blocking_write small_slot" "tx_up_limit ?oc = 0 \<or> tx_up_limit ?oc = 1"
    "tx_fill_level ?oc + header_size (sample_event XLINK_WRITE_REQ 1) \<noteq> 0"
    by (simp_all add: small_slot_def open_slot_def chan_is_non_blocking_write_def
        new_open_channel_def sample_event_def)
  from small_channel_thresholds [OF h, of sample_defs] f show ?thesis by blast
qed

text \<open>
  Claim C10 as stated fails where the sum wraps to zero. On the 50-byte channel a write
  of 0 bytes is admitted; the peer's release request then carries a size of 1 and takes the
  fill level to \<open>-1\<close>; the following non-blocking write of 1 byte sees a sum of 0, is not
  over the watermark and succeeds.
\<close>

theorem small_channel_wrap_counterexample:
  "unat (chan_size small_slot_released) < 100 \<and>
   chan_is_non_blocking_write small_slot_released \<and>
   header_size (sample_event XLINK_WRITE_REQ 1) = 1 \<and>
   tx_write_req sample_defs quiet_env (sample_event XLINK_WRITE_REQ 0) small_slot =
     Returns \<lparr>rc = X_LINK_SUCCESS, slot = small_slot_written,
              event = sample_event XLINK_WRITE_REQ 0, event_queued = True,
              trace = [Dispatcher_event_add EVENT_TX XLINK_WRITE_REQ]\<rparr> \<and>
   rx_release_req (sample_event XLINK_RELEASE_REQ 1) small_slot_written =
     Returns \<lparr>rc = X_LINK_SUCCESS, slot = small_slot_released,
              event = (sample_event XLINK_RELEASE_REQ 1)\<lparr>header_type := XLINK_RELEASE_RESP\<rparr>,
              event_queued = False,
              trace = [Dispatcher_event_add EVENT_RX XLINK_RELEASE_RESP,
                       Complete PKT_RELEASED]\<rparr> \<and>
   tx_write_req sample_defs quiet_env (sample_event XLINK_WRITE_REQ 1) small_slot_released =
     Returns \<lparr>rc = X_LINK_SUCCESS, slot = small_slot_written,
              event = sample_event XLINK_WRITE_REQ 1, event_queued = True,
              trace = [Dispatcher_event_add EVENT_TX XLINK_WRITE_REQ]\<rparr>"
proof -
  have a: "unat (chan_size small_slot_released) < 100"
    "chan_is_non_blocking_write small_slot_released"
    "header_size (sample_event XLINK_WRITE_REQ 1) = 1"
    by (simp_all add: small_slot_released_def open_slot_def chan_is_non_blocking_write_def
        sample_event_def)
  have w0: "tx_write_req sample_defs quiet_env (sample_event XLINK_WRITE_REQ 0) small_slot =
       Returns \<lparr>rc = X_LINK_SUCCESS, slot = small_slot_written,
                event = sample_event XLINK_WRITE_REQ 0, event_queued = True,
                trace = [Dispatcher_event_add EVENT_TX XLINK_WRITE_REQ]\<rparr>"
    by (simp add: tx_write_req_def small_slot_def small_slot_written_def open_slot_def
        sample_event_def quiet_env_def wait_for_space.simps is_enough_space_in_channel_def
        packet_limit_def upper_threshold_def lower_threshold_def THR_UPR_def THR_LWR_def
        new_open_channel_def passthru_0x401 Let_def)
      (simp add: sample_defs_def)
  have r1: "rx_release_req (sample_event XLINK_RELEASE_REQ 1) small_slot_written =
       Returns \<lparr>rc = X_LINK_SUCCESS, slot = small_slot_released,
                event = (sample_event XLINK_RELEASE_REQ 1)\<lparr>header_type := XLINK_RELEASE_RESP\<rparr>,
                event_queued = False,
                trace = [Dispatcher_event_add EVENT_RX XLINK_RELEASE_RESP,
                         Complete PKT_RELEASED]\<rparr>"
    by (simp add: rx_release_req_def small_slot_written_def small_slot_released_def
        open_slot_def sample_event_def new_open_channel_def)
  have w1: "tx_write_req sample_defs quiet_env (sample_event XLINK_WRITE_REQ 1)
              small_slot_released =
       Returns \<lparr>rc = X_LINK_SUCCESS, slot = small_slot_written,
                event = sample_event XLINK_WRITE_REQ 1, event_queued = True,
                trace = [Dispatcher_event_add EVENT_TX XLINK_WRITE_REQ]\<rparr>"
    by (simp add: tx_write_req_def small_slot_released_def small_slot_written_def open_slot_def
        sample_event_def quiet_env_def wait_for_space.simps is_enough_space_in_channel_def
        packet_limit_def upper_threshold_def lower_threshold_def THR_UPR_def THR_LWR_def
        new_open_channel_def passthru_0x401 Let_def)
      (simp add: sample_defs_def)
  from a w0 r1 w1 show ?thesis by simp
qed

subsection \<open>A full rx queue\<close>

lemma add_packet_full:
  "count (get_queue qs oc) = capacity (get_queue qs oc) \<Longrightarrow>
   add_packet_to_channel ok oc qs buffer sz pa = (X_LINK_SUCCESS, oc)"
  by (simp add: add_packet_to_channel_def)

text \<open>
  Claim C9. When the count of a queue equals its capacity, \<^verbatim>\<open>add_packet_to_channel\<close> returns
  \<^verbatim>\<open>X_LINK_SUCCESS\<close> and leaves the runtime state (queue, count, fill level) as it is; it
  calls nobody, so the offered buffer is not given back. The receive path of a data write
  whose allocation and transport read succeeded therefore takes its success branch with
  the packet never queued: the slot is unchanged, the buffer is not deallocated, the
  response goes to the dispatcher and \<^verbatim>\<open>pkt_available\<close> is completed. The result code is
  \<^verbatim>\<open>X_LINK_SUCCESS\<close>; where a ready callback is due it is the result of running it.
\<close>

theorem full_queue_drops_packet:
  assumes "opchan c = Some oc"
    and "count (rx_queue oc) = capacity (rx_queue oc)"
    and "allocated e = Some (buffer, pa)"
    and "read_rc e = 0" and "read_size e = unat (header_size ev)"
  shows "add_packet_to_channel (kzalloc_ok e) oc RX_QUEUE buffer (header_size ev) pa =
           (X_LINK_SUCCESS, oc) \<and>
         (\<exists>out. rx_write_req e ev c = Returns out \<and>
            slot out = c \<and>
            header_type (event out) = XLINK_WRITE_VOLATILE_RESP \<and>
            rc out = (if ready_callback_due c oc
                      then fst (run_callback (send_sig_rc e) oc (ready_callback oc)
                                  (ready_calling_pid oc))
                      else X_LINK_SUCCESS) \<and>
            trace out =
              [Platform_allocate (header_size ev) XLINK_NORMAL_MEMORY,
               Platform_read (interface ev) (handle_sw_device_id ev) buffer (timeout c),
               Dispatcher_event_add EVENT_RX XLINK_WRITE_VOLATILE_RESP,
               Complete PKT_AVAILABLE] @
              (if ready_callback_due c oc
               then snd (run_callback (send_sig_rc e) oc (ready_callback oc)
                           (ready_calling_pid oc))
               else []) \<and>
            Platform_deallocate buffer pa (header_size ev) XLINK_NORMAL_MEMORY \<notin> set (trace out))"
proof -
  have full: "add_packet_to_channel (kzalloc_ok e) oc RX_QUEUE buffer (header_size ev) pa =
                (X_LINK_SUCCESS, oc)"
    using assms(2) by (simp add: add_packet_full)
  obtain r2 t3 where
    cb: "run_callback (send_sig_rc e) oc (ready_callback oc) (ready_calling_pid oc) = (r2, t3)"
    by (cases "run_callback (send_sig_rc e) oc (ready_callback oc) (ready_calling_pid oc)")
  then have "Platform_deallocate buffer pa (header_size ev) XLINK_NORMAL_MEMORY \<notin> set t3"
    by (auto simp: run_callback_def split: if_splits)
  with assms full cb show ?thesis
    by (simp add: rx_write_req_def Let_def ready_callback_due_def)
qed

text \<open>A write of 64 bytes arrives on a channel whose rx queue of capacity 2 holds 2 packets.\<close>

theorem full_queue_drops_packet_witness:
  "add_packet_to_channel True full_oc RX_QUEUE 0x3000 64 0x3000 = (X_LINK_SUCCESS, full_oc) \<and>
   (\<exists>out. rx_write_req (quiet_env\<lparr>allocated := Some (0x3000, 0x3000), read_size := 64\<rparr>)
             (sample_event XLINK_WRITE_REQ 64) (open_slot RXB_TXB 4096 full_oc) = Returns out \<and>
      slot out = open_slot RXB_TXB 4096 full_oc \<and>
      rc out = X_LINK_SUCCESS \<and>
      trace out =
        [Platform_allocate 64 XLINK_NORMAL_MEMORY,
         Platform_read PCIE_INTERFACE 1 0x3000 0,
         Dispatcher_event_add EVENT_RX XLINK_WRITE_VOLATILE_RESP,
         Complete PKT_AVAILABLE])"
proof -
  let ?e = "quiet_env\<lparr>allocated := Some (0x3000, 0x3000), read_size := 64\<rparr>"
  let ?ev = "sample_event XLINK_WRITE_REQ 64"
  let ?c = "open_slot RXB_TXB 4096 full_oc"
  have h: "opchan ?c = Some full_oc" "count (rx_queue full_oc) = capacity (rx_queue full_oc)"
    "allocated ?e = Some (0x3000, 0x3000)" "read_rc ?e = 0" "read_size ?e = unat (header_size ?ev)"
    by (simp_all add: open_slot_def full_oc_def quiet_env_def sample_event_def)
  have n: "\<not> ready_callback_due ?c full_oc"
    by (simp add: ready_callback_due_def open_slot_def chan_is_non_blocking_read_def)
  have v: "kzalloc_ok ?e" "header_size ?ev = 64" "interface ?ev = PCIE_INTERFACE"
    "handle_sw_device_id ?ev = 1" "timeout ?c = 0"
    by (simp_all add: quiet_env_def sample_event_def open_slot_def)
  from full_queue_drops_packet [OF h] n v show ?thesis by auto
qed

subsection \<open>Write completions on the receive side\<close>

lemma run_callback_after_add:
  "run_callback s (snd (add_packet_to_channel ok oc RX_QUEUE buffer sz pa)) f p =
   run_callback s oc f p"
  by (simp add: run_callback_def add_packet_to_channel_def Let_def)

lemma ready_callback_after_add:
  "ready_callback (snd (add_packet_to_channel ok oc RX_QUEUE buffer sz pa)) = ready_callback oc"
  "ready_calling_pid (snd (add_packet_to_channel ok oc RX_QUEUE buffer sz pa)) =
     ready_calling_pid oc"
  by (simp_all add: add_packet_to_channel_def Let_def)

lemma add_packet_ok:
  "fst (add_packet_to_channel True oc qs buffer sz pa) = X_LINK_SUCCESS"
  by (simp add: add_packet_to_channel_def Let_def)

text \<open>
  Claim C6 against the code. A write completion reaches a channel that has its runtime
  state, and the allocations succeed. For a data or volatile write (whose transport read
  succeeds) \<^verbatim>\<open>pkt_available\<close> is completed and the ready callback is run exactly when the
  slot is \<^verbatim>\<open>CHAN_OPEN\<close>, the mode marks receive as non-blocking and a ready callback is
  registered. For a control write \<^verbatim>\<open>pkt_available\<close> is completed as well, but the trace ends
  there whatever the mode and the registration: that case never runs the callback, which is
  where the code departs from the claim.
\<close>

theorem write_completion_signal_and_callback:
  assumes "opchan c = Some oc" and "allocated e = Some (buffer, pa)" and "kzalloc_ok e"
  shows "(read_rc e = 0 \<longrightarrow> read_size e = unat (header_size ev) \<longrightarrow>
            (\<exists>out. rx_write_req e ev c = Returns out \<and>
               trace out =
                 [Platform_allocate (header_size ev) XLINK_NORMAL_MEMORY,
                  Platform_read (interface ev) (handle_sw_device_id ev) buffer (timeout c),
                  Dispatcher_event_add EVENT_RX XLINK_WRITE_VOLATILE_RESP,
                  Complete PKT_AVAILABLE] @
                 (if ready_callback_due c oc
                  then snd (run_callback (send_sig_rc e) oc (ready_callback oc)
                              (ready_calling_pid oc))
                  else []))) \<and>
         (\<exists>out. rx_write_control_req e ev c = Returns out \<and>
            rc out = X_LINK_SUCCESS \<and>
            trace out =
              [Platform_allocate (header_size ev) XLINK_NORMAL_MEMORY,
               Dispatcher_event_add EVENT_RX XLINK_WRITE_CONTROL_RESP,
               Complete PKT_AVAILABLE])"
proof -
  obtain oc1 where
    add: "add_packet_to_channel True oc RX_QUEUE buffer (header_size ev) pa =
            (X_LINK_SUCCESS, oc1)"
    using add_packet_ok [of oc RX_QUEUE buffer "header_size ev" pa]
    by (cases "add_packet_to_channel True oc RX_QUEUE buffer (header_size ev) pa") auto
  have cb: "run_callback s oc1 f p = run_callback s oc f p" for s f p
    using run_callback_after_add [of s True oc buffer "header_size ev" pa f p] add by simp
  have rdy: "ready_callback oc1 = ready_callback oc" "ready_calling_pid oc1 = ready_calling_pid oc"
    using ready_callback_after_add [of True oc buffer "header_size ev" pa] add by simp_all
  obtain r2 t3 where
    run: "run_callback (send_sig_rc e) oc (ready_callback oc) (ready_calling_pid oc) = (r2, t3)"
    by (cases "run_callback (send_sig_rc e) oc (ready_callback oc) (ready_calling_pid oc)")
  have data: "\<exists>out. rx_write_req e ev c = Returns out \<and>
               trace out =
                 [Platform_allocate (header_size ev) XLINK_NORMAL_MEMORY,
                  Platform_read (interface ev) (handle_sw_device_id ev) buffer (timeout c),
                  Dispatcher_event_add EVENT_RX XLINK_WRITE_VOLATILE_RESP,
                  Complete PKT_AVAILABLE] @
                 (if ready_callback_due c oc
                  then snd (run_callback (send_sig_rc e) oc (ready_callback oc)
                              (ready_calling_pid oc))
                  else [])"
    if "read_rc e = 0" and "read_size e = unat (header_size ev)"
    using assms that add cb rdy run
    by (simp add: rx_write_req_def Let_def ready_callback_due_def)
  have control: "\<exists>out. rx_write_control_req e ev c = Returns out \<and>
            rc out = X_LINK_SUCCESS \<and>
            trace out =
              [Platform_allocate (header_size ev) XLINK_NORMAL_MEMORY,
               Dispatcher_event_add EVENT_RX XLINK_WRITE_CONTROL_RESP,
               Complete PKT_AVAILABLE]"
    using assms add by (simp add: rx_write_control_req_def Let_def)
  from data control show ?thesis by blast
qed

text \<open>
  The same open channel, receive non-blocking, with a ready callback of kernel origin
  registered: a data write of 4 bytes calls it, a control write of 4 bytes does not.
\<close>

theorem write_completion_signal_and_callback_witness:
  "(\<exists>out. rx_write_req (quiet_env\<lparr>read_size := 4\<rparr>) (sample_event XLINK_WRITE_REQ 4)
            (open_slot RXN_TXN 4096 ready_oc) = Returns out \<and>
      trace out =
        [Platform_allocate 4 XLINK_NORMAL_MEMORY,
         Platform_read PCIE_INTERFACE 1 0x1000 0,
         Dispatcher_event_add EVENT_RX XLINK_WRITE_VOLATILE_RESP,
         Complete PKT_AVAILABLE,
         Call_callback 0x5000 0x401]) \<and>
   (\<exists>out. rx_write_control_req (quiet_env\<lparr>read_size := 4\<rparr>)
            (sample_event XLINK_WRITE_CONTROL_REQ 4)
            (open_slot RXN_TXN 4096 ready_oc) = Returns out \<and>
      rc out = X_LINK_SUCCESS \<and>
      trace out =
        [Platform_allocate 4 XLINK_NORMAL_MEMORY,
         Dispatcher_event_add EVENT_RX XLINK_WRITE_CONTROL_RESP,
         Complete PKT_AVAILABLE])"
proof -
  let ?e = "quiet_env\<lparr>read_size := 4\<rparr>"
  let ?c = "open_slot RXN_TXN 4096 ready_oc"
  have h: "opchan ?c = Some ready_oc" "allocated ?e = Some (0x1000, 0x1000)" "kzalloc_ok ?e"
    by (simp_all add: open_slot_def quiet_env_def)
  have rd: "read_rc ?e = 0" "read_size ?e = unat (header_size (sample_event XLINK_WRITE_REQ 4))"
    by (simp_all add: quiet_env_def sample_event_def)
  have due: "ready_callback_due ?c ready_oc"
    by (simp add: ready_callback_due_def open_slot_def chan_is_non_blocking_read_def
        ready_oc_def NULL_def)
  have cb: "run_callback (send_sig_rc ?e) ready_oc (ready_callback ready_oc)
              (ready_calling_pid ready_oc) = (X_LINK_SUCCESS, [Call_callback 0x5000 0x401])"
    by (simp add: run_callback_def ready_oc_def new_open_channel_def)
  have v: "header_size (sample_event XLINK_WRITE_REQ 4) = 4"
    "header_size (sample_event XLINK_WRITE_CONTROL_REQ 4) = 4"
    "interface (sample_event XLINK_WRITE_REQ 4) = PCIE_INTERFACE"
    "handle_sw_device_id (sample_event XLINK_WRITE_REQ 4) = 1" "timeout ?c = 0"
    by (simp_all add: sample_event_def open_slot_def)
  from write_completion_signal_and_callback [OF h, of "sample_event XLINK_WRITE_REQ 4"]
    write_completion_signal_and_callback [OF h, of "sample_event XLINK_WRITE_CONTROL_REQ 4"]
    rd due cb v
  show ?thesis by auto
qed

subsection \<open>Opening and closing a channel\<close>

lemma release_first:
  assumes "head (get_queue qs oc) = p # ps"
  shows "\<exists>oc'. release_packet_from_channel oc qs NULL =
                 (X_LINK_SUCCESS, oc', Some (pkt_length p), frees p) \<and>
               head (get_queue qs oc') = ps \<and>
               (\<forall>qs'. qs' \<noteq> qs \<longrightarrow> get_queue qs' oc' = get_queue qs' oc)"
proof -
  have other: "get_queue qs' (set_queue qs q oc\<lparr>rx_fill_level := v\<rparr>) = get_queue qs' oc"
    if "qs' \<noteq> qs" for qs' q v
    using that by (cases qs; cases qs') simp_all
  have this_one: "get_queue qs (set_queue qs q oc\<lparr>rx_fill_level := v\<rparr>) = q" for q v
    by (cases qs) simp_all
  from assms show ?thesis
    by (simp add: release_packet_from_channel_def find_packet_def get_packet_from_channel_def
        frees_def Let_def other this_one)
qed

lemma drain_queue_result:
  "snd (drain_queue qs oc t) = t @ concat (map frees (head (get_queue qs oc))) \<and>
   head (get_queue qs (fst (drain_queue qs oc t))) = [] \<and>
   (\<forall>qs'. qs' \<noteq> qs \<longrightarrow>
      get_queue qs' (fst (drain_queue qs oc t)) = get_queue qs' oc)"
proof (induction qs oc t rule: drain_queue.induct)
  case (1 qs oc t)
  show ?case
  proof (cases "head (get_queue qs oc)")
    case Nil
    then show ?thesis by (simp add: drain_queue.simps [of qs oc])
  next
    case (Cons p ps)
    from release_first [OF Cons] obtain oc' where
      rel: "release_packet_from_channel oc qs NULL =
              (X_LINK_SUCCESS, oc', Some (pkt_length p), frees p)"
      and hd: "head (get_queue qs oc') = ps"
      and other: "\<forall>qs'. qs' \<noteq> qs \<longrightarrow> get_queue qs' oc' = get_queue qs' oc"
      by blast
    have ne: "head (get_queue qs oc) \<noteq> []" using Cons by simp
    have step: "drain_queue qs oc t = drain_queue qs oc' (t @ frees p)"
      using ne rel by (simp add: drain_queue.simps [of qs oc])
    from "1.IH" [OF ne rel [symmetric] refl refl] hd other Cons step
    show ?thesis by simp
  qed
qed

lemma close_present:
  assumes "opchan c = Some oc"
  shows "multiplexer_close_channel c =
           (X_LINK_SUCCESS, c\<lparr>opchan := None\<rparr>,
            concat (map frees (head (rx_queue oc) @ head (tx_queue oc))) @ [Kfree_opchan])"
proof -
  obtain oc1 t1 where d1: "drain_queue RX_QUEUE oc [] = (oc1, t1)"
    by (cases "drain_queue RX_QUEUE oc []")
  obtain oc2 t2 where d2: "drain_queue TX_QUEUE oc1 t1 = (oc2, t2)"
    by (cases "drain_queue TX_QUEUE oc1 t1")
  from drain_queue_result [of RX_QUEUE oc "[]"] d1
  have t1: "t1 = concat (map frees (head (rx_queue oc)))"
    and tx1: "tx_queue oc1 = tx_queue oc"
    by auto
  from drain_queue_result [of TX_QUEUE oc1 t1] d2
  have "t2 = t1 @ concat (map frees (head (tx_queue oc1)))" by auto
  with assms d1 d2 t1 tx1 show ?thesis
    by (simp add: multiplexer_close_channel_def)
qed

text \<open>
  Claim C3. A local open request on a \<^verbatim>\<open>CHAN_CLOSED\<close> slot without runtime state, whose
  allocation succeeds, stores the requested size, timeout and mode, allocates the runtime
  state, hands the open request to the dispatcher and sleeps once on \<^verbatim>\<open>opened\<close> with a
  timeout of 5000 ms. If the wait is completed the slot is \<^verbatim>\<open>CHAN_OPEN\<close> and owns the runtime
  state; if it times out or is interrupted every packet queued meanwhile is deallocated,
  the runtime state is freed, the slot is \<^verbatim>\<open>CHAN_CLOSED\<close> without runtime state, and the
  call returns \<^verbatim>\<open>X_LINK_TIMEOUT\<close> or \<^verbatim>\<open>X_LINK_ERROR\<close>.
\<close>

theorem local_open_closed_slot:
  assumes "status c = CHAN_CLOSED" and "opchan c = None"
    and "kzalloc_ok e" and "wakes e = w # ws"
  shows "opchan (requested ev c) = None \<and> status (requested ev c) = CHAN_CLOSED \<and>
         tx_open_channel_req d e ev c =
           Returns
             (case result w of
                Completed \<Rightarrow>
                  \<lparr>rc = X_LINK_SUCCESS,
                   slot = (requested ev c)
                     \<lparr>opchan := Some (during w (new_open_channel d (header_chan ev))),
                      status := CHAN_OPEN\<rparr>,
                   event = ev, event_queued = True,
                   trace = [Dispatcher_event_add EVENT_TX XLINK_OPEN_CHANNEL_REQ,
                            Wait OPENED (Some 5000)]\<rparr>
              | Timed_out \<Rightarrow>
                  \<lparr>rc = X_LINK_TIMEOUT, slot = requested ev c,
                   event = ev, event_queued = True,
                   trace = [Dispatcher_event_add EVENT_TX XLINK_OPEN_CHANNEL_REQ,
                            Wait OPENED (Some 5000)] @
                     concat (map frees
                       (head (rx_queue (during w (new_open_channel d (header_chan ev)))) @
                        head (tx_queue (during w (new_open_channel d (header_chan ev)))))) @
                     [Kfree_opchan]\<rparr>
              | Interrupted \<Rightarrow>
                  \<lparr>rc = X_LINK_ERROR, slot = requested ev c,
                   event = ev, event_queued = True,
                   trace = [Dispatcher_event_add EVENT_TX XLINK_OPEN_CHANNEL_REQ,
                            Wait OPENED (Some 5000)] @
                     concat (map frees
                       (head (rx_queue (during w (new_open_channel d (header_chan ev)))) @
                        head (tx_queue (during w (new_open_channel d (header_chan ev)))))) @
                     [Kfree_opchan]\<rparr>)"
proof -
  let ?oc = "during w (new_open_channel d (header_chan ev))"
  let ?c2 = "(requested ev c)\<lparr>opchan := Some (new_open_channel d (header_chan ev))\<rparr>"
  have st: "opchan (requested ev c) = None" "status (requested ev c) = CHAN_CLOSED"
    using assms(1,2) by (simp_all add: requested_def)
  have opened: "multiplexer_open_channel d (kzalloc_ok e) (header_chan ev) (requested ev c) =
                  (X_LINK_SUCCESS, ?c2)"
    using assms(3) st by (simp add: multiplexer_open_channel_def)
  have closed: "multiplexer_close_channel (?c2\<lparr>opchan := Some ?oc\<rparr>) =
                  (X_LINK_SUCCESS, requested ev c,
                   concat (map frees (head (rx_queue ?oc) @ head (tx_queue ?oc))) @
                     [Kfree_opchan])"
    using close_present [of "?c2\<lparr>opchan := Some ?oc\<rparr>" ?oc] st by simp
  have run: "tx_open_channel_req d e ev c = Returns
             (case result w of
                Completed \<Rightarrow>
                  \<lparr>rc = X_LINK_SUCCESS,
                   slot = (requested ev c)\<lparr>opchan := Some ?oc, status := CHAN_OPEN\<rparr>,
                   event = ev, event_queued = True,
                   trace = [Dispatcher_event_add EVENT_TX XLINK_OPEN_CHANNEL_REQ,
                            Wait OPENED (Some 5000)]\<rparr>
              | Timed_out \<Rightarrow>
                  \<lparr>rc = X_LINK_TIMEOUT, slot = requested ev c,
                   event = ev, event_queued = True,
                   trace = [Dispatcher_event_add EVENT_TX XLINK_OPEN_CHANNEL_REQ,
                            Wait OPENED (Some 5000)] @
                     concat (map frees (head (rx_queue ?oc) @ head (tx_queue ?oc))) @
                     [Kfree_opchan]\<rparr>
              | Interrupted \<Rightarrow>
                  \<lparr>rc = X_LINK_ERROR, slot = requested ev c,
                   event = ev, event_queued = True,
                   trace = [Dispatcher_event_add EVENT_TX XLINK_OPEN_CHANNEL_REQ,
                            Wait OPENED (Some 5000)] @
                     concat (map frees (head (rx_queue ?oc) @ head (tx_queue ?oc))) @
                     [Kfree_opchan]\<rparr>)"
    using assms(1,4) opened closed
    by (cases "result w")
      (simp_all add: tx_open_channel_req_def requested_def [symmetric] sleep_def wake_rc_def
        OPEN_CHANNEL_TIMEOUT_MSEC_def Let_def)
  with st show ?thesis by simp
qed

text \<open>
  An open request that the peer acknowledges, and one that times out after two packets
  have arrived during the wait.
\<close>

theorem local_open_closed_slot_witness:
  "tx_open_channel_req sample_defs
     (quiet_env\<lparr>wakes := [\<lparr>result = Completed, during = (\<lambda>oc. oc)\<rparr>]\<rparr>)
     (sample_event XLINK_OPEN_CHANNEL_REQ 4096) closed_slot =
     Returns \<lparr>rc = X_LINK_SUCCESS,
              slot = open_slot RXN_TXN 4096 (new_open_channel sample_defs 0x401),
              event = sample_event XLINK_OPEN_CHANNEL_REQ 4096, event_queued = True,
              trace = [Dispatcher_event_add EVENT_TX XLINK_OPEN_CHANNEL_REQ,
                       Wait OPENED (Some 5000)]\<rparr> \<and>
   tx_open_channel_req sample_defs
     (quiet_env\<lparr>wakes := [\<lparr>result = Timed_out, during = (\<lambda>oc. full_oc)\<rparr>]\<rparr>)
     (sample_event XLINK_OPEN_CHANNEL_REQ 4096) closed_slot =
     Returns \<lparr>rc = X_LINK_TIMEOUT,
              slot = closed_slot\<lparr>chan_size := 4096, mode := RXN_TXN\<rparr>,
              event = sample_event XLINK_OPEN_CHANNEL_REQ 4096, event_queued = True,
              trace = [Dispatcher_event_add EVENT_TX XLINK_OPEN_CHANNEL_REQ,
                       Wait OPENED (Some 5000),
                       Platform_deallocate 0x1000 0x1000 100 XLINK_NORMAL_MEMORY, Kfree_packet,
                       Platform_deallocate 0x2000 0x2000 200 XLINK_NORMAL_MEMORY, Kfree_packet,
                       Kfree_opchan]\<rparr>"
proof -
  let ?ev = "sample_event XLINK_OPEN_CHANNEL_REQ 4096"
  let ?ok = "\<lparr>result = Completed, during = (\<lambda>oc. oc)\<rparr>"
  let ?late = "\<lparr>result = Timed_out, during = (\<lambda>oc. full_oc)\<rparr>"
  have h: "status closed_slot = CHAN_CLOSED" "opchan closed_slot = None"
    by (simp_all add: closed_slot_def)
  have k: "kzalloc_ok (quiet_env\<lparr>wakes := [?ok]\<rparr>)" "kzalloc_ok (quiet_env\<lparr>wakes := [?late]\<rparr>)"
    by (simp_all add: quiet_env_def)
  have w: "wakes (quiet_env\<lparr>wakes := [?ok]\<rparr>) = ?ok # []"
    "wakes (quiet_env\<lparr>wakes := [?late]\<rparr>) = ?late # []"
    by simp_all
  have r: "requested ?ev closed_slot = closed_slot\<lparr>chan_size := 4096, mode := RXN_TXN\<rparr>"
    "header_chan ?ev = 0x401"
    "(closed_slot\<lparr>chan_size := 4096, mode := RXN_TXN\<rparr>)
        \<lparr>opchan := Some (new_open_channel sample_defs 0x401), status := CHAN_OPEN\<rparr> =
      open_slot RXN_TXN 4096 (new_open_channel sample_defs 0x401)"
    by (simp_all add: requested_def sample_event_def closed_slot_def open_slot_def)
  have q: "head (rx_queue full_oc) =
             [\<lparr>pkt_data = 0x1000, pkt_length = 100, pkt_paddr = 0x1000\<rparr>,
              \<lparr>pkt_data = 0x2000, pkt_length = 200, pkt_paddr = 0x2000\<rparr>]"
    "head (tx_queue full_oc) = []"
    by (simp_all add: full_oc_def new_open_channel_def)
  from local_open_closed_slot [OF h k(1) w(1), of ?ev sample_defs]
    local_open_closed_slot [OF h k(2) w(2), of ?ev sample_defs] r q
  show ?thesis by (simp add: frees_def)
qed

text \<open>
  Claim C7. A local open request on a slot in state \<^verbatim>\<open>CHAN_OPEN_PEER\<close> returns
  \<^verbatim>\<open>X_LINK_SUCCESS\<close> with the slot \<^verbatim>\<open>CHAN_OPEN\<close> and the requested size, timeout and mode
  stored; the runtime state that is there is kept as it is; the trace is empty, so there is
  no wait and nothing is submitted.
\<close>

theorem peer_open_adopted:
  assumes "status c = CHAN_OPEN_PEER"
  shows "\<exists>out. tx_open_channel_req d e ev c = Returns out \<and>
           rc out = X_LINK_SUCCESS \<and>
           status (slot out) = CHAN_OPEN \<and>
           chan_size (slot out) = header_size ev \<and>
           timeout (slot out) = header_timeout ev \<and>
           mode (slot out) = data_mode ev \<and>
           event_queued out = False \<and>
           trace out = [] \<and>
           (\<forall>oc. opchan c = Some oc \<longrightarrow> opchan (slot out) = Some oc)"
  using assms
  by (cases "opchan c"; cases "kzalloc_ok e")
    (simp_all add: tx_open_channel_req_def multiplexer_open_channel_def Let_def)

text \<open>The peer has opened channel \<open>0x401\<close>; the local side asks for 4096 bytes, non-blocking.\<close>

theorem peer_open_adopted_witness:
  "\<exists>out. tx_open_channel_req sample_defs quiet_env (sample_event XLINK_OPEN_CHANNEL_REQ 4096)
           peer_slot = Returns out \<and>
     rc out = X_LINK_SUCCESS \<and>
     slot out = open_slot RXN_TXN 4096 (new_open_channel sample_defs 0x401) \<and>
     event_queued out = False \<and> trace out = []"
proof -
  have h: "status peer_slot = CHAN_OPEN_PEER" by (simp add: peer_slot_def)
  from peer_open_adopted [OF h, of sample_defs quiet_env "sample_event XLINK_OPEN_CHANNEL_REQ 4096"]
  obtain out where
    o: "tx_open_channel_req sample_defs quiet_env (sample_event XLINK_OPEN_CHANNEL_REQ 4096)
          peer_slot = Returns out"
      "rc out = X_LINK_SUCCESS" "event_queued out = False" "trace out = []"
    by blast
  then have "slot out = open_slot RXN_TXN 4096 (new_open_channel sample_defs 0x401)"
    by (auto simp: tx_open_channel_req_def peer_slot_def multiplexer_open_channel_def
        open_slot_def sample_event_def Let_def)
  with o show ?thesis by simp
qed



text \<open>
  The runtime state is needed. \<^verbatim>\<open>xlink_multiplexer_disconnect\<close> frees the runtime state of
  a slot and keeps its status, and a close request on a slot that is \<^verbatim>\<open>CHAN_OPEN\<close> without
  runtime state is answered with \<^verbatim>\<open>X_LINK_ERROR\<close> and leaves the slot as it is.
\<close>

lemma disconnect_keeps_status:
  "opchan (fst (disconnect_slot c)) = None \<and> status (fst (disconnect_slot c)) = status c"
proof (cases "opchan c")
  case None
  then show ?thesis by (simp add: disconnect_slot_def)
next
  case (Some oc)
  then show ?thesis by (simp add: disconnect_slot_def close_present)
qed

lemma close_without_runtime_state:
  assumes "status c = CHAN_OPEN" and "opchan c = None"
  shows "tx_close_channel_req ev c =
           Returns \<lparr>rc = X_LINK_ERROR, slot = c, event = ev, event_queued = False, trace = []\<rparr>"
  using assms by (simp add: tx_close_channel_req_def multiplexer_close_channel_def)

subsection \<open>Size bounds of the write entry points\<close>

text \<open>
  Claim C8. Each of the three write entry points has a bound of its own
  (\<^verbatim>\<open>XLINK_MAX_DATA_SIZE\<close>, \<^verbatim>\<open>XLINK_MAX_CONTROL_DATA_SIZE\<close>, \<^verbatim>\<open>XLINK_MAX_BUF_SIZE\<close>); a request
  whose size exceeds the bound of its class returns \<^verbatim>\<open>X_LINK_ERROR\<close> with an empty trace
  and the channel table untouched: no event is created, no buffer allocated, nothing
  reaches the multiplexer.
\<close>

theorem write_size_bounds:
  "(XLINK_MAX_DATA_SIZE d < unat sz \<longrightarrow>
      xlink_write_data d create e xlink hdl chan pmessage pmessage_at sz xm =
        Returns (X_LINK_ERROR, xm, [])) \<and>
   (XLINK_MAX_CONTROL_DATA_SIZE d < unat sz \<longrightarrow>
      xlink_write_control_data d create e xlink hdl chan pmessage sz xm =
        Returns (X_LINK_ERROR, xm, [])) \<and>
   (XLINK_MAX_BUF_SIZE d < unat sz \<longrightarrow>
      xlink_write_volatile d create e xlink hdl chan pmessage sz xm =
        Returns (X_LINK_ERROR, xm, []))"
  by (simp add: xlink_write_data_def xlink_write_control_data_def xlink_write_volatile_def
      split: option.splits)

text \<open>One byte above each bound of the sample configuration.\<close>

theorem write_size_bounds_witness:
  "xlink_write_data sample_defs sample_create quiet_env (Some sample_dev) (Some sample_handle)
     0x401 0x7000 0x7F00 1073741825 sample_table = Returns (X_LINK_ERROR, sample_table, []) \<and>
   xlink_write_control_data sample_defs sample_create quiet_env (Some sample_dev)
     (Some sample_handle) 0x401 0x7000 101 sample_table =
     Returns (X_LINK_ERROR, sample_table, []) \<and>
   xlink_write_volatile sample_defs sample_create quiet_env (Some sample_dev)
     (Some sample_handle) 0x401 0x7000 129 sample_table =
     Returns (X_LINK_ERROR, sample_table, [])"
proof -
  have b: "XLINK_MAX_DATA_SIZE sample_defs < unat (1073741825 :: u32)"
    "XLINK_MAX_CONTROL_DATA_SIZE sample_defs < unat (101 :: u32)"
    "XLINK_MAX_BUF_SIZE sample_defs < unat (129 :: u32)"
    by (simp_all add: sample_defs_def)
  from write_size_bounds [of sample_defs 1073741825 sample_create quiet_env "Some sample_dev"
      "Some sample_handle" "0x401" "0x7000" "0x7F00" sample_table]
    write_size_bounds [of sample_defs 101 sample_create quiet_env "Some sample_dev"
      "Some sample_handle" "0x401" "0x7000" "0x7F00" sample_table]
    write_size_bounds [of sample_defs 129 sample_create quiet_env "Some sample_dev"
      "Some sample_handle" "0x401" "0x7000" "0x7F00" sample_table]
    b
  show ?thesis by simp
qed

text \<open>
  The 129 bytes that are too many for a volatile write are fine as a data write: the
  request passes the checks of the multiplexer, is admitted and queued.
\<close>

lemma data_write_129:
  "\<exists>xm. xlink_write_data sample_defs sample_create quiet_env (Some sample_dev) (Some sample_handle)
     0x401 0x7000 0x7F00 129 sample_table =
     Returns (X_LINK_SUCCESS, xm,
       [Create_event XLINK_WRITE_REQ 0x401 129 0, Dispatcher_event_add EVENT_TX XLINK_WRITE_REQ]) \<and>
     xm 0 0x401 = open_slot RXN_TXN 4096
       ((new_open_channel sample_defs 0x401)\<lparr>tx_fill_level := 129, tx_packet_level := 1\<rparr>)"
  apply (simp add: xlink_write_data_def sample_dev_def sample_handle_def
      get_link_by_sw_device_id_def sample_create_def sample_event_def multiplexer_tx_def
      xlink_multiplexer_tx_def Let_def)
  apply (simp add: is_channel_for_device_def is_control_channel_def get_channel_type_def
      default_channel_table_def passthru_0x401 sample_table_def open_slot_def
      tx_write_req_def wait_for_space.simps is_enough_space_in_channel_def
      packet_limit_def upper_threshold_def lower_threshold_def THR_UPR_def THR_LWR_def
      new_open_channel_def quiet_env_def Let_def)
  apply (simp add: sample_defs_def)
  done

end
